theory Spec2Isabelle
  imports Complex_Main "HOL-Library.Log_Nat"
begin

section \<open>Conventions of the embedding\<close>

text \<open>
  The development embeds \<^verbatim>\<open>impdar/lib/migration_routines.py\<close>.

  \<^item> A float64 is modelled by an exact real (a complex128 by an exact complex number): no
    rounding, no overflow.  Where the source, on finite input, divides by zero and so
    produces the IEEE value NaN, the model says so explicitly (type \<open>ieee\<close> below, and
    \<open>None\<close> for the obliquity factor of the Kirchhoff sum).
    The rounding of doubles is modelled only where a property is about it
    (\<open>round_double\<close> below).
  \<^item> A raised Python exception is a value of type \<open>error\<close>; a function that can raise
    returns \<open>error + 'a\<close>, \<open>Inl\<close> being the exception.  \<open>FitpackError\<close> is the exception
    \<^verbatim>\<open>dfitpack.error\<close> of scipy's FITPACK wrapper.
  \<^item> A one-dimensional numpy array is a list, a two-dimensional one a list of rows together
    with its shape.
\<close>

datatype error =
    ValueError string
  | TypeError string
  | IndexError string
  | UnboundLocalError string
  | FitpackError string

text \<open>Sequencing of a computation that may raise: the first exception wins.\<close>

definition ebind :: "error + 'a \<Rightarrow> ('a \<Rightarrow> error + 'b) \<Rightarrow> error + 'b" where
  "ebind m f = (case m of Inl e \<Rightarrow> Inl e | Inr x \<Rightarrow> f x)"

section \<open>The sparse band stencil \<open>Sp_Matr\<close>\<close>

text \<open>
  \<^verbatim>\<open>A[i,j] = v\<close> on a matrix held as a list of rows.
\<close>

definition set2 :: "'a list list \<Rightarrow> nat \<Rightarrow> nat \<Rightarrow> 'a \<Rightarrow> 'a list list" where
  "set2 A i j v = A[i := (A ! i)[j := v]]"

text \<open>
  scipy's \<^verbatim>\<open>A.setdiag(vals, k)\<close> on a square matrix: it raises when the diagonal \<open>k\<close> lies
  outside the matrix, and otherwise assigns \<^verbatim>\<open>A[i, i+k] = vals[i]\<close> (for \<open>k < 0\<close>:
  \<^verbatim>\<open>A[i-k, i] = vals[i]\<close>) along the diagonal, zeros included.
\<close>

definition setdiag :: "real list \<Rightarrow> int \<Rightarrow> real list list \<Rightarrow> error + real list list" where
  "setdiag vals k A =
     (let M = int (length A) in
      if (0 < k \<and> M \<le> k) \<or> (k < 0 \<and> M \<le> - k)
      then Inl (ValueError ''k exceeds matrix dimensions'')
      else Inr (fold (\<lambda>i B. if k < 0 then set2 B (i + nat (- k)) i (vals ! i)
                              else set2 B i (i + nat k) (vals ! i))
                     [0 ..< min (length vals) (nat (M - \<bar>k\<bar>))] A))"

text \<open>\<^verbatim>\<open>np.ones(n)\<close> scaled by \<open>c\<close>; a negative length raises.\<close>

definition scaled_ones :: "real \<Rightarrow> int \<Rightarrow> error + real list" where
  "scaled_ones c n =
     (if n < 0 then Inl (ValueError ''negative dimensions are not allowed'')
      else Inr (replicate (nat n) c))"

text \<open>
  \<^verbatim>\<open>Sp_Matr(N,diag,k1,k2,k3=0,k4=0,nx=0)\<close>.  The five \<^verbatim>\<open>setdiag\<close> calls run in the
  order of the source; the last two write the diagonals \<open>nx\<close> and \<open>-nx\<close>.  Then the
  boundary rows: \<^verbatim>\<open>A[0,0] = 1; A[0,1:] = 0; A[-1,-1] = 1; A[-1,:-1] = 1\<close>.
\<close>

definition Sp_Matr ::
  "nat \<Rightarrow> real \<Rightarrow> real \<Rightarrow> real \<Rightarrow> real \<Rightarrow> real \<Rightarrow> nat \<Rightarrow> error + real list list" where
  "Sp_Matr N diag k1 k2 k3 k4 nx =
     ebind (scaled_ones diag (int N)) (\<lambda>d0.
     ebind (setdiag d0 0 (replicate N (replicate N 0))) (\<lambda>A1.
     ebind (scaled_ones k1 (int N - 1)) (\<lambda>d1.
     ebind (setdiag d1 1 A1) (\<lambda>A2.
     ebind (scaled_ones k2 (int N - 1)) (\<lambda>d2.
     ebind (setdiag d2 (- 1) A2) (\<lambda>A3.
     ebind (scaled_ones k3 (int N - int nx)) (\<lambda>d3.
     ebind (setdiag d3 (int nx) A3) (\<lambda>A4.
     ebind (scaled_ones k4 (int N - int nx)) (\<lambda>d4.
     ebind (setdiag d4 (- int nx) A4) (\<lambda>A5.
       let A6 = set2 A5 0 0 1;
           A7 = A6[0 := take 1 (A6 ! 0) @ replicate (N - 1) 0];
           A8 = set2 A7 (N - 1) (N - 1) 1;
           A9 = A8[N - 1 := replicate (N - 1) 1 @ drop (N - 1) (A8 ! (N - 1))]
       in Inr A9))))))))))"

text \<open>
  \<^verbatim>\<open>stencil * v\<close>: the product of the sparse matrix with a dense vector.  Only the stored
  (non-zero) entries of a row take part in its sum.
\<close>

definition matvec :: "'a::{zero,times,monoid_add} list list \<Rightarrow> 'a list \<Rightarrow> error + 'a list" where
  "matvec A v =
     (if list_ex (\<lambda>row. length row \<noteq> length v) A
      then Inl (ValueError ''dimension mismatch'')
      else Inr (map (\<lambda>row. sum_list (map (\<lambda>(a, x). a * x)
                                          (filter (\<lambda>(a, x). a \<noteq> 0) (zip row v)))) A))"

text \<open>The call of \<^verbatim>\<open>phaseShift\<close>: \<^verbatim>\<open>Sp_Matr(dat.tnum,-2,1,1)\<close>.\<close>

definition stencil_of :: "nat \<Rightarrow> error + real list list" where
  "stencil_of N = Sp_Matr N (- 2) 1 1 0 0 0"

section \<open>Arrays and the radargram\<close>

text \<open>
  A two-dimensional numpy array: its shape and its rows.  \<^verbatim>\<open>np.size(a,0)\<close> is \<open>shape0\<close>,
  \<^verbatim>\<open>np.size(a,1)\<close> is \<open>shape1\<close>.  numpy keeps every array well formed.
\<close>

record 'a array2 =
  shape0 :: nat
  shape1 :: nat
  rows :: "'a list list"

definition wf_array2 :: "'a array2 \<Rightarrow> bool" where
  "wf_array2 a = (length (rows a) = shape0 a \<and> list_all (\<lambda>r. length r = shape1 a) (rows a))"

text \<open>The array whose entry \<open>(i, j)\<close> is \<open>f i j\<close>.\<close>

definition tab2 :: "nat \<Rightarrow> nat \<Rightarrow> (nat \<Rightarrow> nat \<Rightarrow> 'a) \<Rightarrow> 'a list list" where
  "tab2 n m f = map (\<lambda>i. map (\<lambda>j. f i j) [0..<m]) [0..<n]"

definition mk_array2 :: "nat \<Rightarrow> nat \<Rightarrow> (nat \<Rightarrow> nat \<Rightarrow> 'a) \<Rightarrow> 'a array2" where
  "mk_array2 n m f = \<lparr>shape0 = n, shape1 = m, rows = tab2 n m f\<rparr>"

text \<open>
  The attributes of the ImpDAR data object that the migration routines read.
  \<open>travel_time\<close> is in microseconds.  The samples \<open>data\<close> are finite reals on input; the
  type parameter lets an output hold NaN.
\<close>

record 'a RadarData =
  data :: "'a array2"
  dt :: real
  travel_time :: "real list"
  trace_int :: "real list"
  dist :: "real list"
  snum :: nat
  tnum :: nat

text \<open>The assignment \<^verbatim>\<open>dat.data = m\<close>: every other attribute keeps its value.\<close>

definition set_data :: "'a RadarData \<Rightarrow> 'b array2 \<Rightarrow> 'b RadarData" where
  "set_data d m =
     \<lparr>data = m, dt = dt d, travel_time = travel_time d, trace_int = trace_int d,
      dist = dist d, snum = snum d, tnum = tnum d\<rparr>"

text \<open>
  The three migration routines return \<open>Inr d\<close> when they return the object (in state
  \<open>d\<close>) and \<open>Inl (e, d)\<close> when they raise \<open>e\<close>, leaving the object in state \<open>d\<close>.
  The exception of the shape check is what the specification calls ShapeMismatch.
\<close>

definition ShapeMismatch :: error where
  "ShapeMismatch = ValueError ''The input array must be of size (tnum,snum)''"

definition shape_ok :: "'a RadarData \<Rightarrow> bool" where
  "shape_ok dat = (shape1 (data dat) = tnum dat \<and> shape0 (data dat) = snum dat)"

section \<open>numpy helpers\<close>

text \<open>\<^verbatim>\<open>np.argmin\<close>: the first index of the least element.\<close>

primrec argmin_aux :: "nat \<Rightarrow> nat \<Rightarrow> real \<Rightarrow> real list \<Rightarrow> nat" where
  "argmin_aux i b v [] = b"
| "argmin_aux i b v (y # ys) =
     (if y < v then argmin_aux (Suc i) i y ys else argmin_aux (Suc i) b v ys)"

definition np_argmin :: "real list \<Rightarrow> nat" where
  "np_argmin xs = (case xs of [] \<Rightarrow> 0 | x # ys \<Rightarrow> argmin_aux 1 0 x ys)"

definition np_argmax :: "real list \<Rightarrow> nat" where
  "np_argmax xs = np_argmin (map uminus xs)"

text \<open>\<^verbatim>\<open>np.nansum\<close>: NaN entries (\<open>None\<close>) count as zero.\<close>

definition nansum :: "real option list \<Rightarrow> real" where
  "nansum xs = sum_list (map (\<lambda>x. case x of None \<Rightarrow> 0 | Some v \<Rightarrow> v) xs)"

text \<open>
  \<^verbatim>\<open>np.gradient(f, x)\<close> with coordinates \<open>x\<close>, at index \<open>i\<close> of \<open>n\<close> points: one-sided
  differences at the two ends, the second-order formula for uneven spacing inside (it is
  the centred difference when the spacing is even).  The quotients are taken over the
  reals, that is, without the rounding of the floating-point operations.

  Before it computes, \<^verbatim>\<open>np.gradient\<close> compares the length of \<open>x\<close> with the length of the
  axis and then reads \<^verbatim>\<open>np.diff(x)[0]\<close>, which fails for fewer than two coordinates.
\<close>

definition grad_at :: "real list \<Rightarrow> (nat \<Rightarrow> real) \<Rightarrow> nat \<Rightarrow> nat \<Rightarrow> real" where
  "grad_at x f n i =
     (if i = 0 then (f 1 - f 0) / (x ! 1 - x ! 0)
      else if i = n - 1 then (f (n - 1) - f (n - 2)) / (x ! (n - 1) - x ! (n - 2))
      else let dx1 = x ! i - x ! (i - 1);
               dx2 = x ! (i + 1) - x ! i;
               a = - dx2 / (dx1 * (dx1 + dx2));
               b = (dx2 - dx1) / (dx1 * dx2);
               c = dx1 / (dx2 * (dx1 + dx2))
           in a * f (i - 1) + b * f i + c * f (i + 1))"

definition gradient_errors :: "nat \<Rightarrow> real list \<Rightarrow> error option" where
  "gradient_errors n x =
     (if length x \<noteq> n
      then Some (ValueError ''when 1d, distances must match the length of the corresponding dimension'')
      else if n < 2
      then Some (IndexError ''index 0 is out of bounds for axis 0 with size 0'')
      else None)"

text \<open>\<^verbatim>\<open>np.gradient(a, x, axis=0)\<close> on a two-dimensional array.\<close>

definition gradient_axis0 :: "real array2 \<Rightarrow> real list \<Rightarrow> error + real list list" where
  "gradient_axis0 a x =
     (case gradient_errors (shape0 a) x of
        Some e \<Rightarrow> Inl e
      | None \<Rightarrow> Inr (tab2 (shape0 a) (shape1 a)
                      (\<lambda>i k. grad_at x (\<lambda>i'. rows a ! i' ! k) (shape0 a) i)))"

text \<open>\<^verbatim>\<open>np.gradient(f, x)\<close> on a one-dimensional array.\<close>

definition gradient1 :: "real list \<Rightarrow> real list \<Rightarrow> error + real list" where
  "gradient1 f x =
     (case gradient_errors (length f) x of
        Some e \<Rightarrow> Inl e
      | None \<Rightarrow> Inr (map (grad_at x (\<lambda>i. f ! i) (length f)) [0..<length f]))"

section \<open>Kirchhoff migration\<close>

text \<open>
  The index \<^verbatim>\<open>np.argmin(abs(dat.travel_time/1e6-2.*r/vel))\<close> of the sample closest in time to
  the path of length \<open>r\<close>.
\<close>

definition hyp_index :: "real list \<Rightarrow> real \<Rightarrow> real \<Rightarrow> nat" where
  "hyp_index tt vel r = np_argmin (map (\<lambda>t. \<bar>t / 10 ^ 6 - 2 * r / vel\<bar>) tt)"

text \<open>
  The array \<^verbatim>\<open>[M[Didx[i],i] for i in range(len(Didx))]\<close> with the entries outside the record
  (\<^verbatim>\<open>2.*rs/vel > max(dat.travel_time/1e6)\<close>) set to zero.  \<open>M\<close> is \<^verbatim>\<open>gradD\<close> for the far
  field and \<^verbatim>\<open>dat.data\<close> for the near field.
\<close>

definition along_hyperbola ::
  "real list list \<Rightarrow> real list \<Rightarrow> real \<Rightarrow> real list \<Rightarrow> nat list \<Rightarrow> real list" where
  "along_hyperbola M tt vel rs Didx =
     map (\<lambda>i. if 2 * rs ! i / vel > Max (set (map (\<lambda>t. t / 10 ^ 6) tt)) then 0
               else M ! (Didx ! i) ! i) [0..<length Didx]"

text \<open>
  The body of the two loops, for the output sample \<open>(ti, xi)\<close>.  The obliquity factor
  \<^verbatim>\<open>z/rs\<close> is NaN (\<open>None\<close>) exactly where \<open>rs = 0\<close>, which forces \<open>z = 0\<close>: the source
  silences that warning and sums with \<^verbatim>\<open>np.nansum\<close>.
\<close>

definition kirchhoff_sample ::
  "real list list \<Rightarrow> real list list \<Rightarrow> real list \<Rightarrow> real list \<Rightarrow> real \<Rightarrow> bool \<Rightarrow> nat \<Rightarrow> nat \<Rightarrow> real" where
  "kirchhoff_sample D gradD tt ds vel nearfield ti xi =
     (let x = ds ! xi;
          t = tt ! ti / 10 ^ 6;
          z = vel * t / 2;
          rs = map (\<lambda>d. sqrt ((d - x) ^ 2 + z ^ 2)) ds;
          costheta = map (\<lambda>r. if r = 0 then None else Some (z / r)) rs;
          Didx = map (hyp_index tt vel) rs;
          gradDhyp = along_hyperbola gradD tt vel rs Didx;
          integral = nansum (map (\<lambda>(g, c). map_option (\<lambda>c'. g * c' / vel) c) (zip gradDhyp costheta));
          integral2 =
            (if nearfield
             then integral + nansum (map (\<lambda>(d, c, r). map_option (\<lambda>c'. d * c' / r ^ 2) c)
                                          (zip (along_hyperbola D tt vel rs Didx) (zip costheta rs)))
             else integral)
      in 1 / (2 * pi) * integral2)"

text \<open>
  \<^verbatim>\<open>migrationKirchhoff(dat,vel,vel_fn,nearfield)\<close>.  After the shape check and the gradient,
  \<open>snum\<close> is the number of travel times and is at least 2.  The loops then index
  \<^verbatim>\<open>dat.dist[xi]\<close> for \<open>xi < tnum\<close> and column \<open>i\<close> of \<^verbatim>\<open>gradD\<close> for \<open>i < len(dat.dist)\<close>:
  they raise IndexError when there is a trace and \<^verbatim>\<open>dat.dist\<close> has not \<open>tnum\<close> entries.
  \<^verbatim>\<open>dat.data\<close> is assigned once, after the loops.
\<close>

definition migrationKirchhoff ::
  "real RadarData \<Rightarrow> real \<Rightarrow> bool \<Rightarrow> error \<times> real RadarData + real RadarData" where
  "migrationKirchhoff dat vel nearfield =
     (if shape_ok dat
      then (case gradient_axis0 (data dat) (map (\<lambda>t. t / 10 ^ 6) (travel_time dat)) of
              Inl e \<Rightarrow> Inl (e, dat)
            | Inr gradD \<Rightarrow>
                if 0 < tnum dat \<and> length (dist dat) \<noteq> tnum dat
                then Inl (IndexError ''index out of bounds'', dat)
                else Inr (set_data dat (mk_array2 (snum dat) (tnum dat)
                       (\<lambda>ti xi. kirchhoff_sample (rows (data dat)) gradD (travel_time dat)
                                   (dist dat) vel nearfield ti xi))))
      else Inl (ShapeMismatch, dat))"

section \<open>Fourier transforms and frequency axes\<close>

text \<open>\<^verbatim>\<open>np.mean\<close> of a one-dimensional array.\<close>

definition np_mean :: "real list \<Rightarrow> real" where
  "np_mean xs = sum_list xs / real (length xs)"

text \<open>
  \<^verbatim>\<open>2**(np.ceil(np.log(n)/np.log(2))).astype(int)\<close>: the least power of two that is at least
  \<open>n\<close>, the quotient of the logarithms being taken exactly.  For \<open>n = 0\<close> the exponent is
  negative and the integer power raises.
\<close>

definition next_pow2 :: "nat \<Rightarrow> error + nat" where
  "next_pow2 n =
     (if n = 0 then Inl (ValueError ''Integers to negative integer powers are not allowed.'')
      else Inr (2 ^ floorlog 2 (n - 1)))"

text \<open>\<^verbatim>\<open>np.fft.fftfreq(n, d)\<close>: zero first, then the positive, then the negative frequencies.\<close>

definition fftfreq :: "nat \<Rightarrow> real \<Rightarrow> real list" where
  "fftfreq n d =
     map (\<lambda>k. (if k \<le> (n - 1) div 2 then real k else real k - real n) / (real n * d)) [0..<n]"

definition angular :: "real list \<Rightarrow> real list" where
  "angular fs = map (\<lambda>f. 2 * pi * f) fs"

text \<open>The entry \<open>(i, j)\<close> of an array padded with zeros.\<close>

definition pad_at :: "real array2 \<Rightarrow> nat \<Rightarrow> nat \<Rightarrow> real" where
  "pad_at a i j = (if i < shape0 a \<and> j < shape1 a then rows a ! i ! j else 0)"

text \<open>
  \<^verbatim>\<open>np.fft.fft2(a, (n, m))\<close>: the input is padded with zeros (or cut) to \<open>n\<close> by \<open>m\<close> and
  transformed along both axes.  \<^verbatim>\<open>np.fft.ifft2\<close> is the inverse transform.
\<close>

definition fft2 :: "real array2 \<Rightarrow> nat \<Rightarrow> nat \<Rightarrow> complex list list" where
  "fft2 a n m =
     tab2 n m (\<lambda>r c. \<Sum>i\<leftarrow>[0..<n]. \<Sum>j\<leftarrow>[0..<m].
        of_real (pad_at a i j) * (cis (- 2 * pi * real (r * i) / real n) *
                                  cis (- 2 * pi * real (c * j) / real m)))"

definition ifft2 :: "complex list list \<Rightarrow> nat \<Rightarrow> nat \<Rightarrow> complex list list" where
  "ifft2 K n m =
     tab2 n m (\<lambda>i j. (\<Sum>r\<leftarrow>[0..<n]. \<Sum>c\<leftarrow>[0..<m].
        K ! r ! c * (cis (2 * pi * real (r * i) / real n) *
                     cis (2 * pi * real (c * j) / real m))) / of_nat (n * m))"

section \<open>Stolt migration\<close>

text \<open>
  The index in \<open>js\<close> whose grid value is best (greatest, or least) among \<open>js\<close>.
\<close>

definition best_index :: "(real \<Rightarrow> real \<Rightarrow> bool) \<Rightarrow> real list \<Rightarrow> nat list \<Rightarrow> nat" where
  "best_index better xs js = fold (\<lambda>i b. if better (xs ! i) (xs ! b) then i else b) js (hd js)"

text \<open>
  Linear interpolation along one axis of a grid \<open>xs\<close> (in any order) at the point \<open>q\<close>:
  the grid indices that take part and their weights.  A point outside the grid is moved to
  its nearest end.
\<close>

definition axis_weights :: "real list \<Rightarrow> real \<Rightarrow> (nat \<times> real) list" where
  "axis_weights xs q =
     (let qc = max (Min (set xs)) (min (Max (set xs)) q);
          below = filter (\<lambda>i. xs ! i \<le> qc) [0..<length xs];
          above = filter (\<lambda>i. qc < xs ! i) [0..<length xs];
          lo = best_index (\<lambda>u v. v < u) xs below
      in if above = [] then [(lo, 1)]
         else let hi = best_index (\<lambda>u v. u < v) xs above;
                  s = (qc - xs ! lo) / (xs ! hi - xs ! lo)
              in [(lo, 1 - s), (hi, s)])"

text \<open>
  \<^verbatim>\<open>interp2d(x, y, Z)\<close> of scipy with its default \<^verbatim>\<open>kind='linear'\<close> on a rectangular
  grid.  The constructor fits a spline of degree one with FITPACK's \<^verbatim>\<open>regrid_smth\<close>, which
  refuses an axis with fewer than two points, the \<open>x\<close> axis being checked first.  The
  interpolant \<^verbatim>\<open>interp2d(x, y, Z)(qx, qy)\<close> is the bilinear interpolant of the values
  \<open>Z[r][c]\<close> at \<open>(x[c], y[r])\<close>.
\<close>

definition interp2d_errors :: "real list \<Rightarrow> real list \<Rightarrow> error option" where
  "interp2d_errors xs ys =
     (if length xs < 2 then Some (FitpackError ''(mx>kx) failed for hidden mx'')
      else if length ys < 2 then Some (FitpackError ''(my>ky) failed for hidden my'')
      else None)"

definition interp2d :: "real list \<Rightarrow> real list \<Rightarrow> real list list \<Rightarrow> real \<Rightarrow> real \<Rightarrow> real" where
  "interp2d xs ys Z qx qy =
     (\<Sum>(r, wr)\<leftarrow>axis_weights ys qy. \<Sum>(c, wc)\<leftarrow>axis_weights xs qx. wr * wc * Z ! r ! c)"

text \<open>
  The double loop of \<^verbatim>\<open>migrationStolt\<close>: \<open>KK[zj,xi]\<close> is \<open>FK\<close> interpolated, real and
  imaginary part apart, at \<open>(kx[xi], vel/2 * sqrt(kzj^2 + kx[xi]^2))\<close>.
\<close>

definition stolt_interp ::
  "complex list list \<Rightarrow> real list \<Rightarrow> real list \<Rightarrow> real \<Rightarrow> complex list list" where
  "stolt_interp FK kx ws vel =
     tab2 (length ws) (length kx) (\<lambda>zj xi.
       let kzj = ws ! zj * 2 / vel;
           kxi = kx ! xi;
           wsj = vel / 2 * sqrt (kzj ^ 2 + kxi ^ 2)
       in Complex (interp2d kx ws (map (map Re) FK) kxi wsj)
                  (interp2d kx ws (map (map Im) FK) kxi wsj))"

text \<open>
  The obliquity scaling \<^verbatim>\<open>KK *= kZ/np.sqrt(kX**2.+kZ**2.)\<close> followed by
  \<^verbatim>\<open>KK[0,0] = 0.+0j\<close>.  The scaling is \<open>0/0\<close> (NaN, warning silenced) exactly at \<open>[0,0]\<close>,
  the entry that the assignment overwrites.
\<close>

definition stolt_scale ::
  "complex list list \<Rightarrow> real list \<Rightarrow> real list \<Rightarrow> real \<Rightarrow> complex list list" where
  "stolt_scale KK kx ws vel =
     set2 (tab2 (length ws) (length kx) (\<lambda>i j.
             KK ! i ! j * of_real ((ws ! i * 2 / vel) / sqrt ((kx ! j) ^ 2 + (ws ! i * 2 / vel) ^ 2))))
          0 0 0"

definition migrationStolt ::
  "real RadarData \<Rightarrow> real \<Rightarrow> error \<times> real RadarData + real RadarData" where
  "migrationStolt dat vel =
     (if shape_ok dat
      then (case next_pow2 (snum dat) of
              Inl e \<Rightarrow> Inl (e, dat)
            | Inr nt \<Rightarrow>
               (case next_pow2 (tnum dat) of
                  Inl e \<Rightarrow> Inl (e, dat)
                | Inr nx \<Rightarrow>
                   let FK = fft2 (data dat) nt nx;
                       ws = angular (fftfreq nt (dt dat));
                       kx = angular (fftfreq nx (np_mean (trace_int dat)))
                   in (case interp2d_errors kx ws of
                         Some e \<Rightarrow> Inl (e, dat)
                       | None \<Rightarrow>
                          let KK = stolt_scale (stolt_interp FK kx ws vel) kx ws vel;
                              out = ifft2 KK nt nx
                          in Inr (set_data dat (mk_array2 (snum dat) (tnum dat)
                                                  (\<lambda>i j. Re (out ! i ! j)))))))
      else Inl (ShapeMismatch, dat))"

text \<open>The array that \<^verbatim>\<open>migrationStolt\<close> transforms back, as a function of the samples.\<close>

definition stolt_out :: "real array2 \<Rightarrow> nat \<Rightarrow> nat \<Rightarrow> real list \<Rightarrow> real list \<Rightarrow> real \<Rightarrow> complex list list" where
  "stolt_out Z nt nx kx ws vel =
     ifft2 (stolt_scale (stolt_interp (fft2 Z nt nx) kx ws vel) kx ws vel) nt nx"

section \<open>Valid radargrams and operations on sample matrices\<close>

text \<open>
  The invariants of the data model: the samples have shape \<open>(snum, tnum)\<close>; there is one
  travel time per sample, strictly increasing and positive; \<open>dt\<close> and the mean trace
  spacing are positive; there is one spacing and one position per trace.
\<close>

definition valid_radargram :: "real RadarData \<Rightarrow> bool" where
  "valid_radargram dat =
     (wf_array2 (data dat) \<and> shape_ok dat \<and>
      length (travel_time dat) = snum dat \<and> sorted_wrt (<) (travel_time dat) \<and>
      travel_time dat \<noteq> [] \<and> 0 < hd (travel_time dat) \<and>
      0 < dt dat \<and>
      length (trace_int dat) = tnum dat \<and> 0 < np_mean (trace_int dat) \<and>
      length (dist dat) = tnum dat)"

text \<open>The sample matrices \<open>a X + b Y\<close>, \<open>X + c\<close> and \<open>0\<close>.\<close>

definition lincomb :: "real \<Rightarrow> real array2 \<Rightarrow> real \<Rightarrow> real array2 \<Rightarrow> real array2" where
  "lincomb a X b Y =
     mk_array2 (shape0 X) (shape1 X) (\<lambda>i j. a * rows X ! i ! j + b * rows Y ! i ! j)"

definition add_const :: "real \<Rightarrow> real array2 \<Rightarrow> real array2" where
  "add_const c X = mk_array2 (shape0 X) (shape1 X) (\<lambda>i j. rows X ! i ! j + c)"

definition zeros2 :: "nat \<Rightarrow> nat \<Rightarrow> 'a::zero array2" where
  "zeros2 n m = mk_array2 n m (\<lambda>i j. 0)"

text \<open>
  The double-precision number nearest to a real number, ties going to the even
  significand: 53 significant bits.  Overflow and subnormal numbers are left out.
  \<open>add_const_double c X\<close> is the array \<^verbatim>\<open>X + c\<close> as numpy computes it on doubles.
\<close>

definition round_half_even :: "real \<Rightarrow> int" where
  "round_half_even q =
     (let f = \<lfloor>q\<rfloor>; d = q - of_int f
      in if d < 1 / 2 then f else if 1 / 2 < d then f + 1 else if even f then f else f + 1)"

definition round_double :: "real \<Rightarrow> real" where
  "round_double x =
     (if x = 0 then 0
      else let e = \<lfloor>log 2 \<bar>x\<bar>\<rfloor> - 52
           in of_int (round_half_even (x / 2 powr of_int e)) * 2 powr of_int e)"

definition add_const_double :: "real \<Rightarrow> real array2 \<Rightarrow> real array2" where
  "add_const_double c X =
     mk_array2 (shape0 X) (shape1 X) (\<lambda>i j. round_double (rows X ! i ! j + c))"

section \<open>Numbers that may be NaN\<close>

text \<open>
  The value of a float (or complex) variable whose computation may have divided by zero:
  an exact number, or NaN.  Arithmetic on NaN gives NaN.
\<close>

datatype 'a ieee = Fin 'a | NaN

instantiation ieee :: (monoid_add) monoid_add
begin

definition zero_ieee :: "'a ieee" where
  "zero_ieee = Fin 0"

fun plus_ieee :: "'a ieee \<Rightarrow> 'a ieee \<Rightarrow> 'a ieee" where
  "plus_ieee (Fin a) (Fin b) = Fin (a + b)"
| "plus_ieee _ _ = NaN"

instance
proof
  fix a b c :: "'a ieee"
  show "a + b + c = a + (b + c)"
    by (cases a; cases b; cases c) (simp_all add: add.assoc)
  show "0 + a = a"
    by (cases a) (simp_all add: zero_ieee_def)
  show "a + 0 = a"
    by (cases a) (simp_all add: zero_ieee_def)
qed

end

instantiation ieee :: (times) times
begin

fun times_ieee :: "'a ieee \<Rightarrow> 'a ieee \<Rightarrow> 'a ieee" where
  "times_ieee (Fin a) (Fin b) = Fin (a * b)"
| "times_ieee _ _ = NaN"

instance ..

end

instantiation ieee :: (minus) minus
begin

fun minus_ieee :: "'a ieee \<Rightarrow> 'a ieee \<Rightarrow> 'a ieee" where
  "minus_ieee (Fin a) (Fin b) = Fin (a - b)"
| "minus_ieee _ _ = NaN"

instance ..

end

text \<open>Division of a complex value by a non-zero real scalar, and the real part.\<close>

definition divide_by :: "complex ieee \<Rightarrow> real \<Rightarrow> complex ieee" where
  "divide_by z c = (case z of Fin a \<Rightarrow> Fin (a / of_real c) | NaN \<Rightarrow> NaN)"

definition real_part :: "complex ieee \<Rightarrow> real ieee" where
  "real_part z = (case z of Fin a \<Rightarrow> Fin (Re a) | NaN \<Rightarrow> NaN)"

text \<open>
  \<^verbatim>\<open>np.fft.fft\<close> and \<^verbatim>\<open>np.fft.ifft\<close> of a one-dimensional array.  Every output is a sum over
  all inputs, so one NaN input makes every output NaN.
\<close>

definition fft_ieee :: "complex ieee list \<Rightarrow> complex ieee list" where
  "fft_ieee xs =
     map (\<lambda>k. \<Sum>n\<leftarrow>[0..<length xs].
            xs ! n * Fin (cis (- 2 * pi * real (k * n) / real (length xs)))) [0..<length xs]"

definition ifft_ieee :: "complex ieee list \<Rightarrow> complex ieee list" where
  "ifft_ieee xs =
     map (\<lambda>k. divide_by (\<Sum>n\<leftarrow>[0..<length xs].
            xs ! n * Fin (cis (2 * pi * real (k * n) / real (length xs)))) (real (length xs)))
         [0..<length xs]"

section \<open>The velocity profile\<close>

text \<open>
  The velocity argument of \<^verbatim>\<open>migrationPhaseShift\<close>: a number, or a numpy array of one or
  two dimensions.  The result of \<^verbatim>\<open>getVelocityProfile\<close>: the number itself, a profile
  \<open>v(t)\<close>, or a matrix \<open>v(t, x)\<close>.
\<close>

datatype velocity = Scalar real | Array1 "real list" | Array2 "real array2"

datatype vfield = VScalar real | VLayered "real list" | VGridded "real list list"

text \<open>The exceptions of \<^verbatim>\<open>getVelocityProfile\<close> that the specification names.\<close>

definition OutOfRange :: error where
  "OutOfRange = ValueError ''Two-way travel time array extends outside of interpolation range''"

definition DistanceUnset :: error where
  "DistanceUnset = ValueError ''The distance vector was never set.''"

text \<open>The exceptions that scipy's \<^verbatim>\<open>interp1d\<close> raises for a point outside its range.\<close>

definition InterpBelow :: error where
  "InterpBelow = ValueError ''A value in x_new is below the interpolation range.''"

definition InterpAbove :: error where
  "InterpAbove = ValueError ''A value in x_new is above the interpolation range.''"

text \<open>
  \<^verbatim>\<open>interp1d(x, y)(xnew)\<close> of scipy with its defaults: linear, the points sorted by \<open>x\<close>
  (a stable sort), and an exception for a point outside the range of \<open>x\<close>.  The index is
  \<^verbatim>\<open>searchsorted(x, q).clip(1, len(x)-1)\<close>.
\<close>

definition interp1d_at :: "real list \<Rightarrow> real list \<Rightarrow> real \<Rightarrow> real" where
  "interp1d_at xs ys q =
     (let hi = min (max (length (filter (\<lambda>v. v < q) xs)) 1) (length xs - 1);
          lo = hi - 1;
          slope = (ys ! hi - ys ! lo) / (xs ! hi - xs ! lo)
      in slope * (q - xs ! lo) + ys ! lo)"

definition interp1d :: "real list \<Rightarrow> real list \<Rightarrow> real list \<Rightarrow> error + real list" where
  "interp1d x y xnew =
     (if length x \<noteq> length y
      then Inl (ValueError ''x and y arrays must be equal in length along interpolation axis.'')
      else if x = [] then Inl (ValueError ''x and y arrays must have at least 1 entries'')
      else let ps = sort_key fst (zip x y);
               xs = map fst ps;
               ys = map snd ps
           in if list_ex (\<lambda>q. q < hd xs) xnew then Inl InterpBelow
              else if list_ex (\<lambda>q. last xs < q) xnew then Inl InterpAbove
              else Inr (map (interp1d_at xs ys) xnew))"

text \<open>\<^verbatim>\<open>np.linspace(a, b, n)\<close> and \<^verbatim>\<open>np.trapz(y, x)\<close>.\<close>

definition linspace :: "real \<Rightarrow> real \<Rightarrow> nat \<Rightarrow> real list" where
  "linspace a b n = (if n = 1 then [a] else map (\<lambda>i. a + real i * ((b - a) / real (n - 1))) [0..<n])"

definition trapz :: "real list \<Rightarrow> real list \<Rightarrow> real" where
  "trapz y x = (\<Sum>k\<leftarrow>[0..<length x - 1]. (x ! Suc k - x ! k) * (y ! k + y ! Suc k) / 2)"

text \<open>
  \<^verbatim>\<open>griddata(points, vals, (qx, qz), method='nearest')\<close>: the value of the input point
  nearest to the query point (the first one, where several are equally near).
\<close>

definition nearest_value :: "(real \<times> real) list \<Rightarrow> real list \<Rightarrow> real \<Rightarrow> real \<Rightarrow> real" where
  "nearest_value pts vals qx qz =
     vals ! np_argmin (map (\<lambda>(px, pz). (px - qx) ^ 2 + (pz - qz) ^ 2) pts)"

text \<open>
  The layered branch, \<open>v(z)\<close>: \<open>vel_v\<close>, \<open>vel_z\<close> are the two columns of the input and
  \<open>twtt\<close> the travel times in seconds.  \<open>layered_tofz\<close> is the array \<^verbatim>\<open>tofz\<close> of the source.
\<close>

definition layered_zs :: "real list \<Rightarrow> real list \<Rightarrow> error + real list" where
  "layered_zs vel_v twtt =
     (if twtt = [] then Inl (IndexError ''index 0 is out of bounds for axis 0 with size 0'')
      else Inr ((map (\<lambda>t. Max (set vel_v) / 2 * t) twtt)[0 := twtt ! 0 * vel_v ! 0 / 2]))"

definition layered_extend :: "real list \<Rightarrow> real list \<Rightarrow> real list \<Rightarrow> real list \<times> real list" where
  "layered_extend vel_v vel_z zs =
     (let (v1, z1) = (if vel_z ! 0 > Min (set zs)
                      then (vel_v ! np_argmin vel_z # vel_v, Min (set zs) # vel_z)
                      else (vel_v, vel_z))
      in if last z1 < Max (set zs)
         then (v1 @ [v1 ! np_argmax z1], z1 @ [Max (set zs)])
         else (v1, z1))"

definition layered_tofz :: "real list \<Rightarrow> real list \<Rightarrow> real list \<Rightarrow> error + real list" where
  "layered_tofz vel_v vel_z zs =
     (let (v2, z2) = layered_extend vel_v vel_z zs;
          vel_t = map (\<lambda>(z, v). 2 * z / v) (zip z2 v2)
      in interp1d z2 vel_t zs)"

definition profile_from :: "real list \<Rightarrow> real list \<Rightarrow> real list \<Rightarrow> error + real list" where
  "profile_from tofz zs twtt =
     ebind (interp1d tofz zs twtt) (\<lambda>zoft.
       if last twtt > last tofz then Inl OutOfRange
       else ebind (gradient1 zoft twtt) (\<lambda>g. Inr (map (\<lambda>d. 2 * d) g)))"

definition layered_profile :: "real list \<Rightarrow> real list \<Rightarrow> real list \<Rightarrow> error + real list" where
  "layered_profile vel_v vel_z twtt =
     ebind (layered_zs vel_v twtt) (\<lambda>zs.
     ebind (layered_tofz vel_v vel_z zs) (\<lambda>tofz.
       profile_from tofz zs twtt))"

text \<open>A loop that collects one result per item and stops at the first exception.\<close>

primrec emap :: "('a \<Rightarrow> error + 'b) \<Rightarrow> 'a list \<Rightarrow> error + 'b list" where
  "emap f [] = Inr []"
| "emap f (x # xs) = ebind (f x) (\<lambda>y. ebind (emap f xs) (\<lambda>ys. Inr (y # ys)))"

text \<open>
  The gridded branch, \<open>v(x,z)\<close>.  \<open>gridded_column\<close> is the body of the loop over the traces
  for one column \<open>col\<close> of the gridded velocities; the last check is the assignment
  \<^verbatim>\<open>vmig[:,i] = ...\<close>, which needs \<open>n = snum\<close> values.
\<close>

definition gridded_column :: "real list \<Rightarrow> real list \<Rightarrow> real list \<Rightarrow> nat \<Rightarrow> error + real list" where
  "gridded_column zs col twtt n =
     (let vel_t = map (\<lambda>j. 2 * trapz (map (\<lambda>v. 1 / v) (take j col)) (take j zs)) [0..<n]
      in ebind (interp1d zs vel_t zs) (\<lambda>tofz.
         ebind (profile_from tofz zs twtt) (\<lambda>g.
           if length g \<noteq> n then Inl (ValueError ''could not broadcast input array'')
           else Inr g)))"

definition gridded_profile ::
  "'a RadarData \<Rightarrow> real list \<Rightarrow> real list \<Rightarrow> real list \<Rightarrow> real list \<Rightarrow> error + real list list" where
  "gridded_profile dat vel_v vel_z vel_x twtt =
     (if twtt = [] then Inl (IndexError ''index 0 is out of bounds for axis 0 with size 0'')
      else let zs = map (\<lambda>z. z / 2)
                      (linspace (Min (set vel_v) * twtt ! 0) (Max (set vel_v) * last twtt) (snum dat))
           in if list_all (\<lambda>d. d = 0) (dist dat) then Inl DistanceUnset
              else let VS = tab2 (snum dat) (length (dist dat))
                              (\<lambda>r c. nearest_value (zip vel_x vel_z) vel_v (dist dat ! c) (zs ! r))
                   in ebind (emap (\<lambda>i. if i < length (dist dat)
                                         then gridded_column zs (map (\<lambda>row. row ! i) VS) twtt (snum dat)
                                         else Inl (IndexError ''index is out of bounds for axis 1''))
                                  [0..<tnum dat])
                        (\<lambda>cols. Inr (tab2 (snum dat) (length (dist dat))
                                        (\<lambda>r c. if c < tnum dat then cols ! c ! r else 0))))"

text \<open>
  \<^verbatim>\<open>getVelocityProfile(dat, vels_in)\<close>.  A one-dimensional array fails at the unpacking of
  its shape, an array with fewer than two columns at \<^verbatim>\<open>vels_in[:,1]\<close>.  When neither branch
  is taken, \<^verbatim>\<open>return vmig\<close> reads a variable that was never assigned.
\<close>

definition getVelocityProfile :: "'a RadarData \<Rightarrow> velocity \<Rightarrow> error + vfield" where
  "getVelocityProfile dat vels_in =
     (case vels_in of
        Scalar v \<Rightarrow> Inr (VScalar v)
      | Array1 xs \<Rightarrow> Inl (ValueError ''not enough values to unpack (expected 2, got 1)'')
      | Array2 a \<Rightarrow>
          let nlay = shape0 a; dimension = shape1 a
          in if dimension = 0 then Inl (IndexError ''index 0 is out of bounds for axis 1 with size 0'')
             else if dimension = 1 then Inl (IndexError ''index 1 is out of bounds for axis 1 with size 1'')
             else let vel_v = map (\<lambda>r. r ! 0) (rows a);
                      vel_z = map (\<lambda>r. r ! 1) (rows a);
                      twtt = map (\<lambda>t. t / 10 ^ 6) (travel_time dat)
                  in if nlay > 1 \<and> dimension = 2
                     then ebind (layered_profile vel_v vel_z twtt) (\<lambda>v. Inr (VLayered v))
                     else if nlay > 1 \<and> dimension = 3
                     then ebind (gridded_profile dat vel_v vel_z (map (\<lambda>r. r ! 2) (rows a)) twtt)
                            (\<lambda>V. Inr (VGridded V))
                     else Inl (UnboundLocalError ''local variable vmig referenced before assignment''))"

section \<open>Phase-shift migration\<close>

text \<open>\<^verbatim>\<open>w = ws[iw]; if w == 0.0: w = 1e-10/dat.dt\<close>.\<close>

definition omega :: "real \<Rightarrow> real \<Rightarrow> real" where
  "omega dt0 w = (if w = 0 then (1 / 10 ^ 10) / dt0 else w)"

text \<open>
  The constant-velocity branch.  \<open>ik\<close> are the wavenumber indices with
  \<open>vkx2 < w^2\<close>; \<^verbatim>\<open>TK[itau,ik] += FFK\<close> adds \<open>FFK\<close> into those columns of row \<open>itau\<close>.
\<close>

definition scatter_add :: "complex ieee list \<Rightarrow> nat list \<Rightarrow> complex ieee list \<Rightarrow> complex ieee list" where
  "scatter_add row ik vs = fold (\<lambda>(k, v) r. r[k := r ! k + v]) (zip ik vs) row"

definition const_tau_step ::
  "nat list \<Rightarrow> complex ieee list \<Rightarrow> nat \<Rightarrow>
   complex ieee list \<times> complex ieee list list \<Rightarrow> complex ieee list \<times> complex ieee list list" where
  "const_tau_step ik cp itau st =
     (let FFK = map2 (*) (fst st) cp
      in (FFK, (snd st)[itau := scatter_add (snd st ! itau) ik FFK]))"

definition const_freq_step ::
  "'a RadarData \<Rightarrow> real \<Rightarrow> real list \<Rightarrow> real list \<Rightarrow> complex ieee list list \<Rightarrow> nat \<Rightarrow>
   complex ieee list list \<Rightarrow> complex ieee list list" where
  "const_freq_step dat vmig kx ws FK0 iw TK0 =
     (let w = omega (dt dat) (ws ! iw);
          vkx2 = map (\<lambda>k. (vmig * k / 2) ^ 2) kx;
          ik = filter (\<lambda>k. vkx2 ! k < w ^ 2) [0..<length kx];
          FFK = map (\<lambda>k. FK0 ! iw ! k) ik;
          phase = map (\<lambda>k. - w * dt dat * sqrt (1 - vkx2 ! k / w ^ 2)) ik;
          cp = map (\<lambda>p. Fin (cnj (cis p))) phase
      in snd (fold (const_tau_step ik cp) [0..<snum dat] (FFK, TK0)))"

text \<open>
  \<^verbatim>\<open>fourierFiniteDiff(dat,vs,w,FFX,FFX_last,stencil,alpha,beta)\<close>.  The stencil is a real
  matrix; its product with a complex array is taken over the complex numbers.
\<close>

definition lift_matrix :: "real list list \<Rightarrow> complex ieee list list" where
  "lift_matrix A = map (map (\<lambda>a. Fin (of_real a))) A"

definition fourierFiniteDiff ::
  "'a RadarData \<Rightarrow> real list \<Rightarrow> real \<Rightarrow> complex ieee list \<Rightarrow> complex ieee list \<Rightarrow>
   real list list \<Rightarrow> real \<Rightarrow> real \<Rightarrow> error + complex ieee list" where
  "fourierFiniteDiff dat vs w FFX FFX_last stencil alpha beta =
     (let dx = np_mean (trace_int dat);
          coeff1 = map (\<lambda>v. of_real (dt dat * alpha * v ^ 2) / (\<i> * of_real (4 * w * dx ^ 2))) vs;
          coeff2 = map (\<lambda>v. of_real (- beta * v ^ 2 / (4 * w ^ 2 * dx ^ 2))) vs
      in ebind (matvec (lift_matrix stencil) FFX) (\<lambda>S1.
         ebind (matvec (lift_matrix stencil) FFX_last) (\<lambda>S2.
           Inr (map (\<lambda>k. FFX_last ! k + Fin (coeff1 ! k) * S1 ! k
                           + Fin (coeff2 ! k) * (S1 ! k - S2 ! k))
                    [0..<length FFX]))))"

text \<open>
  The pieces of the layered and gridded branch.  \<open>coss_of\<close> is \<^verbatim>\<open>coss\<close>, a complex array
  with zero imaginary parts; numpy orders complex numbers by real part, then imaginary
  part.  \<open>evanescent_idx\<close> is the mask \<^verbatim>\<open>coss <= (tau/dat.travel_time[-1]/1e6)**2.\<close>, where
  \<open>tau\<close> is in seconds and \<open>tt_last\<close> is \<^verbatim>\<open>dat.travel_time[-1]\<close>, in microseconds.
\<close>

definition coss_of :: "real \<Rightarrow> real \<Rightarrow> real list \<Rightarrow> complex list" where
  "coss_of vbg w kx = map (\<lambda>k. 1 - of_real ((0.5 * vbg * k / w) ^ 2)) kx"

definition cshift_of :: "real \<Rightarrow> real \<Rightarrow> complex list \<Rightarrow> complex list" where
  "cshift_of w dt0 coss = map (\<lambda>c. cnj (cis (Re (of_real (- w * dt0) * csqrt c)))) coss"

definition np_le_complex :: "complex \<Rightarrow> complex \<Rightarrow> bool" where
  "np_le_complex a b = (Re a < Re b \<or> (Re a = Re b \<and> Im a \<le> Im b))"

definition evanescent_idx :: "complex list \<Rightarrow> real \<Rightarrow> real \<Rightarrow> bool list" where
  "evanescent_idx coss tau tt_last =
     map (\<lambda>c. np_le_complex c (of_real ((tau / tt_last / 10 ^ 6) ^ 2))) coss"

text \<open>
  The mask as the specification words it: \<open>coss \<le> (tau / tau_max)^2\<close>, with \<open>tau_max\<close> the
  last travel time in seconds.
\<close>

definition spec_evanescent_idx :: "complex list \<Rightarrow> real \<Rightarrow> real \<Rightarrow> bool list" where
  "spec_evanescent_idx coss tau tau_max =
     map (\<lambda>c. np_le_complex c (of_real ((tau / tau_max) ^ 2))) coss"

definition zero_where :: "bool list \<Rightarrow> complex ieee list \<Rightarrow> complex ieee list" where
  "zero_where idx row = map (\<lambda>k. if idx ! k then Fin 0 else row ! k) [0..<length row]"

text \<open>
  The thin-lens factor \<^verbatim>\<open>np.cos(phase2) + 1j*np.sin(phase2)\<close> with
  \<^verbatim>\<open>phase2 = (1./vbg - 2./vfg)*w*dat.dt\<close>.  Where \<open>vfg\<close> (or \<open>vbg\<close>) is zero the
  division gives an infinity, \<open>phase2\<close> is infinite or NaN, and its cosine and sine are NaN.
\<close>

definition thin_lens :: "real \<Rightarrow> real list \<Rightarrow> real \<Rightarrow> real \<Rightarrow> complex ieee list" where
  "thin_lens vbg vfg w dt0 =
     map (\<lambda>v. if vbg = 0 \<or> v = 0 then NaN else Fin (cis ((1 / vbg - 2 / v) * w * dt0))) vfg"

text \<open>
  The state of the two nested loops: the arrays \<^verbatim>\<open>FK\<close> and \<^verbatim>\<open>TK\<close>, and the variable
  \<^verbatim>\<open>FFX_last\<close>.  Its first value, the number \<open>0.\<close>, is never read: it is read only for
  \<open>itau > 0\<close>, after the writes of \<open>itau = 0\<close>; the empty list stands for it.
\<close>

record ps_state =
  st_FK :: "complex ieee list list"
  st_TK :: "complex ieee list list"
  st_FFX_last :: "complex ieee list"

text \<open>
  The gridded part of the loop body: from \<^verbatim>\<open>FK[iw]\<close> after the retardation shift to the
  new \<^verbatim>\<open>FK[iw]\<close> and the new \<^verbatim>\<open>FFX_last\<close>.
\<close>

definition gridded_part ::
  "'a RadarData \<Rightarrow> real list \<Rightarrow> real \<Rightarrow> real list list \<Rightarrow> nat \<Rightarrow> complex ieee list \<Rightarrow>
   complex ieee list \<Rightarrow> error + complex ieee list \<times> complex ieee list" where
  "gridded_part dat vrow w stencil itau row1 FFX_last =
     (if vrow = [] then Inl (ValueError ''zero-size array to reduction operation minimum'')
      else let vbg = Min (set vrow);
               vfg = map (\<lambda>v. v - vbg) vrow;
               FFX0 = ifft_ieee row1
           in if length vfg \<noteq> length FFX0
              then Inl (ValueError ''operands could not be broadcast together'')
              else let FFX1 = map2 (*) FFX0 (thin_lens vbg vfg w (dt dat))
                   in ebind (if 0 < itau
                             then fourierFiniteDiff dat vfg w FFX1 FFX_last stencil (1 / 2) (1 / 4)
                             else Inr FFX1)
                        (\<lambda>FFX. Inr (fft_ieee FFX, FFX)))"

text \<open>The body of the inner loop, for the output time \<open>itau\<close> and the frequency \<open>iw\<close>.\<close>

definition ps_step ::
  "'a RadarData \<Rightarrow> vfield \<Rightarrow> real list \<Rightarrow> real list \<Rightarrow> real list list \<Rightarrow> nat \<Rightarrow> nat \<Rightarrow>
   ps_state \<Rightarrow> error + ps_state" where
  "ps_step dat vmig kx ws stencil itau iw st =
     (let tau = travel_time dat ! itau / 10 ^ 6;
          w = omega (dt dat) (ws ! iw);
          vbg = (case vmig of VGridded V \<Rightarrow> Min (set (V ! itau))
                            | VLayered v \<Rightarrow> v ! itau
                            | VScalar v \<Rightarrow> v);
          coss = coss_of vbg w kx;
          row1 = map2 (\<lambda>z c. z * Fin c) (st_FK st ! iw) (cshift_of w (dt dat) coss)
      in ebind (case vmig of
                  VGridded V \<Rightarrow> gridded_part dat (V ! itau) w stencil itau row1 (st_FFX_last st)
                | _ \<Rightarrow> Inr (row1, st_FFX_last st))
           (\<lambda>(row2, ffx).
              let row3 = zero_where (evanescent_idx coss tau (last (travel_time dat))) row2
              in Inr \<lparr>st_FK = (st_FK st)[iw := row3],
                      st_TK = (st_TK st)[itau := map2 (+) (st_TK st ! itau) row3],
                      st_FFX_last = ffx\<rparr>))"

text \<open>A loop whose body may raise.\<close>

primrec efold :: "('a \<Rightarrow> 's \<Rightarrow> error + 's) \<Rightarrow> 'a list \<Rightarrow> 's \<Rightarrow> error + 's" where
  "efold f [] s = Inr s"
| "efold f (x # xs) s = ebind (f x s) (efold f xs)"

definition vlen :: "vfield \<Rightarrow> nat" where
  "vlen v = (case v of VScalar x \<Rightarrow> 0 | VLayered xs \<Rightarrow> length xs | VGridded V \<Rightarrow> length V)"

text \<open>
  The two nested loops of the layered and gridded branch, from the state \<open>st\<close>.
\<close>

definition ps_loops ::
  "'a RadarData \<Rightarrow> vfield \<Rightarrow> real list \<Rightarrow> real list \<Rightarrow> real list list \<Rightarrow> ps_state \<Rightarrow> error + ps_state" where
  "ps_loops dat vmig kx ws stencil st =
     efold (\<lambda>itau s. if itau < length (travel_time dat)
                      then efold (ps_step dat vmig kx ws stencil itau) [0..<length ws] s
                      else Inl (IndexError ''index out of bounds''))
           [0..<snum dat] st"

text \<open>
  \<^verbatim>\<open>phaseShift(dat, vmig, vels_in, kx, ws, FK)\<close>; \<^verbatim>\<open>vels_in\<close> is only printed.  \<open>FK0\<close> has
  one row per frequency and one column per wavenumber.
\<close>

definition phaseShift ::
  "'a RadarData \<Rightarrow> vfield \<Rightarrow> real list \<Rightarrow> real list \<Rightarrow> complex ieee list list \<Rightarrow>
   error + complex ieee list list" where
  "phaseShift dat vmig kx ws FK0 =
     (let TK0 = replicate (snum dat) (replicate (length kx) (Fin 0))
      in ebind (case vmig of
                  VScalar v \<Rightarrow> Inr (fold (const_freq_step dat v kx ws FK0) [0..<length ws] TK0)
                | _ \<Rightarrow>
                   if vlen vmig \<noteq> snum dat
                   then Inl (ValueError ''Interpolated velocity profile is not the length of the number of samples in a trace.'')
                   else if vlen vmig = 0
                   then Inl (IndexError ''index 0 is out of bounds for axis 0 with size 0'')
                   else ebind (case vmig of VGridded V \<Rightarrow> stencil_of (tnum dat) | _ \<Rightarrow> Inr [])
                          (\<lambda>stencil.
                             ebind (ps_loops dat vmig kx ws stencil
                                      \<lparr>st_FK = FK0, st_TK = TK0, st_FFX_last = []\<rparr>)
                               (\<lambda>st. Inr (st_TK st))))
           (\<lambda>TK1. Inr (map (\<lambda>row. map (\<lambda>z. divide_by z (real (snum dat))) (take (tnum dat) row))
                            TK1)))"

text \<open>
  \<^verbatim>\<open>migrationPhaseShift(dat,vel,vel_fn)\<close>.  \<^verbatim>\<open>np.fft.fft2\<close> refuses a transform of length
  zero, which is asked for when there is no trace.  \<open>vel_fn\<close> is \<open>None\<close> when no file name is
  given, \<open>Some None\<close> when \<^verbatim>\<open>np.genfromtxt\<close> fails on the file, and \<open>Some (Some v)\<close> when
  it loads the array \<open>v\<close>.
\<close>

definition VelocityFileUnreadable :: error where
  "VelocityFileUnreadable =
     TypeError ''File was given for input velocity array, but cannot be loaded. Please reformat.''"

definition loaded_velocity :: "velocity \<Rightarrow> velocity option option \<Rightarrow> error + velocity" where
  "loaded_velocity vel vel_fn =
     (case vel_fn of
        None \<Rightarrow> Inr vel
      | Some None \<Rightarrow> Inl VelocityFileUnreadable
      | Some (Some v) \<Rightarrow> Inr v)"

definition migrationPhaseShift ::
  "real RadarData \<Rightarrow> velocity \<Rightarrow> velocity option option \<Rightarrow>
   error \<times> real RadarData + real ieee RadarData" where
  "migrationPhaseShift dat vel vel_fn =
     (if shape_ok dat
      then (case ebind (next_pow2 (snum dat)) (\<lambda>nt.
                   let kx = angular (fftfreq (tnum dat) (np_mean (trace_int dat)));
                       ws = angular (fftfreq nt (dt dat))
                   in if tnum dat = 0
                      then Inl (ValueError ''Invalid number of FFT data points (0) specified.'')
                      else let FK0 = map (map Fin) (fft2 (data dat) nt (tnum dat))
                           in ebind (loaded_velocity vel vel_fn) (\<lambda>vel1.
                              ebind (getVelocityProfile dat vel1) (\<lambda>vmig.
                                phaseShift dat vmig kx ws FK0))) of
              Inl e \<Rightarrow> Inl (e, dat)
            | Inr TK1 \<Rightarrow>
                Inr (set_data dat \<lparr>shape0 = length TK1, shape1 = tnum dat,
                                    rows = map (\<lambda>row. map real_part (ifft_ieee row)) TK1\<rparr>))
      else Inl (ShapeMismatch, dat))"

text \<open>The all-zero spectrum: every entry is the finite number zero.\<close>

definition zrow :: "nat \<Rightarrow> complex ieee list" where
  "zrow n = replicate n (Fin 0)"

definition zmat :: "nat \<Rightarrow> nat \<Rightarrow> complex ieee list list" where
  "zmat r c = replicate r (zrow c)"

section \<open>Concrete radargrams\<close>

text \<open>Two samples on one trace: \<open>data = [[1], [2]]\<close>, travel times 1 and 2 microseconds.\<close>

definition rg21 :: "real RadarData" where
  "rg21 = \<lparr>data = \<lparr>shape0 = 2, shape1 = 1, rows = [[1], [2]]\<rparr>, dt = 1,
           travel_time = [1, 2], trace_int = [1], dist = [0], snum = 2, tnum = 1\<rparr>"

text \<open>
  A radargram whose sample matrix has one row although \<open>snum = 2\<close>; the all-zero
  radargram with one sample on one trace.
\<close>

definition rg_bad :: "real RadarData" where
  "rg_bad = \<lparr>data = \<lparr>shape0 = 1, shape1 = 1, rows = [[1]]\<rparr>, dt = 1,
            travel_time = [1, 2], trace_int = [1], dist = [0], snum = 2, tnum = 1\<rparr>"


text \<open>Two radargram objects agree on every attribute other than \<^verbatim>\<open>data\<close>.\<close>

definition same_but_data :: "'a RadarData \<Rightarrow> 'b RadarData \<Rightarrow> bool" where
  "same_but_data d e =
     (dt e = dt d \<and> travel_time e = travel_time d \<and> trace_int e = trace_int d \<and>
      dist e = dist d \<and> snum e = snum d \<and> tnum e = tnum d)"

text \<open>
  Two samples on two traces, \<open>data = [[1, 2], [3, 4]]\<close>; a second sample matrix of the
  same shape; the radargram with zero samples on that geometry.
\<close>

definition rg22 :: "real RadarData" where
  "rg22 = \<lparr>data = \<lparr>shape0 = 2, shape1 = 2, rows = [[1, 2], [3, 4]]\<rparr>, dt = 1,
           travel_time = [1, 2], trace_int = [1, 1], dist = [0, 1], snum = 2, tnum = 2\<rparr>"

definition ym22 :: "real array2" where
  "ym22 = \<lparr>shape0 = 2, shape1 = 2, rows = [[0, 1], [1, 0]]\<rparr>"

definition rg22z :: "real RadarData" where
  "rg22z = \<lparr>data = \<lparr>shape0 = 2, shape1 = 2, rows = [[0, 0], [0, 0]]\<rparr>, dt = 1,
            travel_time = [1, 2], trace_int = [1, 1], dist = [0, 1], snum = 2, tnum = 2\<rparr>"

text \<open>Two samples on one trace, \<open>data = [[0], [1]]\<close>.\<close>

definition rg01 :: "real RadarData" where
  "rg01 = \<lparr>data = \<lparr>shape0 = 2, shape1 = 1, rows = [[0], [1]]\<rparr>, dt = 1,
           travel_time = [1, 2], trace_int = [1], dist = [0], snum = 2, tnum = 1\<rparr>"


definition grid_v :: vfield where
  "grid_v = VGridded [[2, 1], [2, 1]]"

section \<open>Properties of the stencil\<close>

lemma stencil_of_3: "stencil_of 3 = Inr [[1, 0, 0], [1, 0, 1], [1, 1, 1]]"
  by code_simp

text \<open>
  Claim C1.  The stencil \<^verbatim>\<open>Sp_Matr(N,-2,1,1)\<close> applied to the all-ones vector is said to give
  \<open>[1, 0, ..., 0, N]\<close>.  In the source the defaults \<open>k3 = k4 = 0\<close>, \<open>nx = 0\<close> make the
  last two \<^verbatim>\<open>setdiag\<close> calls write zeros over the main diagonal, so the \<open>-2\<close> is lost and an
  interior row sums to \<open>2\<close>.  For \<open>N = 3\<close> the product is \<open>[1, 2, 3]\<close>, not \<open>[1, 0, 3]\<close>.
\<close>

theorem stencil_ones_3:
  "ebind (stencil_of 3) (\<lambda>A. matvec A [1, 1, 1]) = Inr [1, 2, 3]"
  by code_simp

section \<open>Kirchhoff migration: linearity and the constant shift\<close>

lemma tab2_length [simp]: "length (tab2 n m f) = n"
  by (simp add: tab2_def)

lemma tab2_nth_length [simp]: "i < n \<Longrightarrow> length (tab2 n m f ! i) = m"
  by (simp add: tab2_def)

lemma tab2_nth [simp]: "i < n \<Longrightarrow> j < m \<Longrightarrow> tab2 n m f ! i ! j = f i j"
  by (simp add: tab2_def)

lemma tab2_cong: "(\<And>i j. i < n \<Longrightarrow> j < m \<Longrightarrow> f i j = g i j) \<Longrightarrow> tab2 n m f = tab2 n m g"
  by (simp add: tab2_def)

lemma argmin_aux_bound: "b < i \<Longrightarrow> argmin_aux i b v ys < i + length ys"
proof (induction ys arbitrary: i b v)
  case Nil
  then show ?case by simp
next
  case (Cons y ys)
  show ?case
    using Cons.IH[of i "Suc i" y] Cons.IH[of b "Suc i" v] Cons.prems by auto
qed

lemma np_argmin_bound: "xs \<noteq> [] \<Longrightarrow> np_argmin xs < length xs"
  using argmin_aux_bound[of 0 1] by (cases xs) (auto simp: np_argmin_def)

lemma hyp_index_bound: "tt \<noteq> [] \<Longrightarrow> hyp_index tt vel r < length tt"
  using np_argmin_bound[of "map (\<lambda>t. \<bar>t / 10 ^ 6 - 2 * r / vel\<bar>) tt"] by (simp add: hyp_index_def)

lemma grad_at_linear:
  "grad_at x (\<lambda>i. a * f i + b * g i) n i = a * grad_at x f n i + b * grad_at x g n i"
  by (simp add: grad_at_def Let_def algebra_simps add_divide_distrib diff_divide_distrib)

lemma grad_at_zero: "grad_at x (\<lambda>i. 0) n i = 0"
  by (simp add: grad_at_def Let_def)

lemma far_norm:
  "nansum (map (\<lambda>(g, c). map_option (\<lambda>c'. g * c' / v) c) (zip gs cs)) =
   sum_list (map (\<lambda>(g, c). g * (case c of None \<Rightarrow> 0 | Some c' \<Rightarrow> c' / v)) (zip gs cs))"
  unfolding nansum_def
  by (induction gs cs rule: list_induct2') (auto split: option.splits)

lemma near_norm:
  "nansum (map (\<lambda>(d, c, r). map_option (\<lambda>c'. d * c' / r ^ 2) c) (zip ds crs)) =
   sum_list (map (\<lambda>(d, cr). d * (case fst cr of None \<Rightarrow> 0 | Some c' \<Rightarrow> c' / snd cr ^ 2)) (zip ds crs))"
  unfolding nansum_def
  by (induction ds crs rule: list_induct2') (auto split: option.splits)

lemma weighted_sum_linear:
  "length G1 = length G2 \<Longrightarrow>
   sum_list (map (\<lambda>(g, c). g * w c) (zip (map2 (\<lambda>x y. (a::real) * x + b * y) G1 G2) cs)) =
   a * sum_list (map (\<lambda>(g, c). g * w c) (zip G1 cs)) + b * sum_list (map (\<lambda>(g, c). g * w c) (zip G2 cs))"
proof (induction G1 G2 arbitrary: cs rule: list_induct2)
  case Nil
  then show ?case by simp
next
  case (Cons x xs y ys)
  then show ?case by (cases cs) (simp_all add: algebra_simps)
qed

lemma grad_at_cong:
  "2 \<le> n \<Longrightarrow> i < n \<Longrightarrow> (\<And>j. j < n \<Longrightarrow> f j = g j) \<Longrightarrow> grad_at x f n i = grad_at x g n i"
  by (simp add: grad_at_def Let_def)

lemma grad_at_interior:
  "i \<noteq> 0 \<Longrightarrow> i \<noteq> n - 1 \<Longrightarrow>
   grad_at x f n i =
     (- (x ! (i + 1) - x ! i) / ((x ! i - x ! (i - 1)) * ((x ! i - x ! (i - 1)) + (x ! (i + 1) - x ! i)))) * f (i - 1)
   + (((x ! (i + 1) - x ! i) - (x ! i - x ! (i - 1))) / ((x ! i - x ! (i - 1)) * (x ! (i + 1) - x ! i))) * f i
   + ((x ! i - x ! (i - 1)) / ((x ! (i + 1) - x ! i) * ((x ! i - x ! (i - 1)) + (x ! (i + 1) - x ! i)))) * f (i + 1)"
  by (simp only: grad_at_def Let_def if_False)

lemma grad_coeff_sum:
  fixes p q :: real
  assumes "0 < p" "0 < q"
  shows "- q / (p * (p + q)) + (q - p) / (p * q) + p / (q * (p + q)) = 0"
proof -
  have nz: "p \<noteq> 0" "q \<noteq> 0" "p + q \<noteq> 0" using assms by auto
  have a: "- q / (p * (p + q)) = (- q * q) / (p * q * (p + q))"
    using nz by (simp add: divide_simps)
  have b: "(q - p) / (p * q) = ((q - p) * (p + q)) / (p * q * (p + q))"
    using nz by (simp add: divide_simps)
  have c: "p / (q * (p + q)) = (p * p) / (p * q * (p + q))"
    using nz by (simp add: divide_simps)
  have "- q / (p * (p + q)) + (q - p) / (p * q) + p / (q * (p + q)) =
      (- q * q + (q - p) * (p + q) + p * p) / (p * q * (p + q))"
    unfolding a b c by (simp only: add_divide_distrib)
  also have "- q * q + (q - p) * (p + q) + p * p = 0" by (simp add: algebra_simps)
  finally show ?thesis by simp
qed

lemma grad_at_shift:
  assumes "i < n" and "\<And>j. Suc j < n \<Longrightarrow> x ! j < x ! Suc j"
  shows "grad_at x (\<lambda>i. f i + c) n i = grad_at x f n i"
proof (cases "i = 0 \<or> i = n - 1")
  case True
  then show ?thesis by (auto simp: grad_at_def)
next
  case False
  then have i: "0 < i" "Suc i < n" using assms(1) by auto
  have d1: "x ! (i - 1) < x ! i" using assms(2)[of "i - 1"] i by simp
  have d2: "x ! i < x ! (i + 1)" using assms(2)[of i] i by simp
  define p where "p = x ! i - x ! (i - 1)"
  define q where "q = x ! (i + 1) - x ! i"
  have pos: "0 < p" "0 < q" using d1 d2 by (simp_all add: p_def q_def)
  have ni: "i \<noteq> 0" "i \<noteq> n - 1" using False by auto
  have "grad_at x (\<lambda>i. f i + c) n i =
      (- q / (p * (p + q))) * (f (i - 1) + c) + ((q - p) / (p * q)) * (f i + c) + (p / (q * (p + q))) * (f (i + 1) + c)"
    unfolding p_def q_def by (rule grad_at_interior[OF ni])
  also have "\<dots> = ((- q / (p * (p + q))) * f (i - 1) + ((q - p) / (p * q)) * f i + (p / (q * (p + q))) * f (i + 1))
      + (- q / (p * (p + q)) + (q - p) / (p * q) + p / (q * (p + q))) * c"
    by (simp only: distrib_left distrib_right add_ac)
  also have "\<dots> = (- q / (p * (p + q))) * f (i - 1) + ((q - p) / (p * q)) * f i + (p / (q * (p + q))) * f (i + 1)"
    by (simp only: grad_coeff_sum[OF pos] mult_zero_left add_0_right)
  also have "\<dots> = grad_at x f n i"
    unfolding p_def q_def by (rule grad_at_interior[OF ni, symmetric])
  finally show ?thesis .
qed

lemma along_hyperbola_linear:
  assumes "\<And>i. i < length Didx \<Longrightarrow> Didx ! i < n \<and> i < m"
  shows "along_hyperbola (tab2 n m (\<lambda>i j. a * A ! i ! j + b * B ! i ! j)) tt vel rs Didx =
         map2 (\<lambda>x y. a * x + b * y) (along_hyperbola A tt vel rs Didx) (along_hyperbola B tt vel rs Didx)"
  unfolding along_hyperbola_def
proof (rule nth_equalityI)
  show "length (map (\<lambda>i. if 2 * rs ! i / vel > Max (set (map (\<lambda>t. t / 10 ^ 6) tt)) then 0
               else tab2 n m (\<lambda>i j. a * A ! i ! j + b * B ! i ! j) ! (Didx ! i) ! i) [0..<length Didx]) =
    length (map2 (\<lambda>x y. a * x + b * y)
      (map (\<lambda>i. if 2 * rs ! i / vel > Max (set (map (\<lambda>t. t / 10 ^ 6) tt)) then 0
               else A ! (Didx ! i) ! i) [0..<length Didx])
      (map (\<lambda>i. if 2 * rs ! i / vel > Max (set (map (\<lambda>t. t / 10 ^ 6) tt)) then 0
               else B ! (Didx ! i) ! i) [0..<length Didx]))"
    by simp
next
  fix i
  assume "i < length (map (\<lambda>i. if 2 * rs ! i / vel > Max (set (map (\<lambda>t. t / 10 ^ 6) tt)) then 0
               else tab2 n m (\<lambda>i j. a * A ! i ! j + b * B ! i ! j) ! (Didx ! i) ! i) [0..<length Didx])"
  then have i: "i < length Didx" by simp
  from assms[OF i] have r: "Didx ! i < n" "i < m" by auto
  show "map (\<lambda>i. if 2 * rs ! i / vel > Max (set (map (\<lambda>t. t / 10 ^ 6) tt)) then 0
               else tab2 n m (\<lambda>i j. a * A ! i ! j + b * B ! i ! j) ! (Didx ! i) ! i) [0..<length Didx] ! i =
    map2 (\<lambda>x y. a * x + b * y)
      (map (\<lambda>i. if 2 * rs ! i / vel > Max (set (map (\<lambda>t. t / 10 ^ 6) tt)) then 0
               else A ! (Didx ! i) ! i) [0..<length Didx])
      (map (\<lambda>i. if 2 * rs ! i / vel > Max (set (map (\<lambda>t. t / 10 ^ 6) tt)) then 0
               else B ! (Didx ! i) ! i) [0..<length Didx]) ! i"
    using i r by simp
qed

lemma along_hyperbola_length [simp]: "length (along_hyperbola M tt vel rs Didx) = length Didx"
  by (simp add: along_hyperbola_def)

lemma far_linear:
  assumes "\<And>i. i < length Didx \<Longrightarrow> Didx ! i < n \<and> i < m"
  shows "nansum (map (\<lambda>(g, c). map_option (\<lambda>c'. g * c' / v) c)
            (zip (along_hyperbola (tab2 n m (\<lambda>i j. a * A ! i ! j + b * B ! i ! j)) tt vel rs Didx) cs)) =
         a * nansum (map (\<lambda>(g, c). map_option (\<lambda>c'. g * c' / v) c) (zip (along_hyperbola A tt vel rs Didx) cs))
       + b * nansum (map (\<lambda>(g, c). map_option (\<lambda>c'. g * c' / v) c) (zip (along_hyperbola B tt vel rs Didx) cs))"
proof -
  have e: "along_hyperbola (tab2 n m (\<lambda>i j. a * A ! i ! j + b * B ! i ! j)) tt vel rs Didx =
         map2 (\<lambda>x y. a * x + b * y) (along_hyperbola A tt vel rs Didx) (along_hyperbola B tt vel rs Didx)"
    by (rule along_hyperbola_linear[OF assms])
  show ?thesis unfolding far_norm e by (rule weighted_sum_linear) simp
qed

lemma near_linear:
  assumes "\<And>i. i < length Didx \<Longrightarrow> Didx ! i < n \<and> i < m"
  shows "nansum (map (\<lambda>(d, c, r). map_option (\<lambda>c'. d * c' / r ^ 2) c)
            (zip (along_hyperbola (tab2 n m (\<lambda>i j. a * A ! i ! j + b * B ! i ! j)) tt vel rs Didx) crs)) =
         a * nansum (map (\<lambda>(d, c, r). map_option (\<lambda>c'. d * c' / r ^ 2) c) (zip (along_hyperbola A tt vel rs Didx) crs))
       + b * nansum (map (\<lambda>(d, c, r). map_option (\<lambda>c'. d * c' / r ^ 2) c) (zip (along_hyperbola B tt vel rs Didx) crs))"
proof -
  have e: "along_hyperbola (tab2 n m (\<lambda>i j. a * A ! i ! j + b * B ! i ! j)) tt vel rs Didx =
         map2 (\<lambda>x y. a * x + b * y) (along_hyperbola A tt vel rs Didx) (along_hyperbola B tt vel rs Didx)"
    by (rule along_hyperbola_linear[OF assms])
  show ?thesis unfolding near_norm e by (rule weighted_sum_linear) simp
qed

lemma kirchhoff_sample_linear:
  assumes "tt \<noteq> []" "length tt = n" "length ds = m"
  shows "kirchhoff_sample (tab2 n m (\<lambda>i j. a * D1 ! i ! j + b * D2 ! i ! j))
            (tab2 n m (\<lambda>i j. a * G1 ! i ! j + b * G2 ! i ! j)) tt ds vel nf ti xi =
         a * kirchhoff_sample D1 G1 tt ds vel nf ti xi + b * kirchhoff_sample D2 G2 tt ds vel nf ti xi"
proof -
  define rs where "rs = map (\<lambda>d. sqrt ((d - ds ! xi) ^ 2 + (vel * (tt ! ti / 10 ^ 6) / 2) ^ 2)) ds"
  define Didx where "Didx = map (hyp_index tt vel) rs"
  have rng: "\<And>i. i < length Didx \<Longrightarrow> Didx ! i < n \<and> i < m"
    using hyp_index_bound[OF assms(1)] assms(2,3) by (simp add: Didx_def rs_def)
  show ?thesis
    unfolding kirchhoff_sample_def Let_def rs_def[symmetric] Didx_def[symmetric]
    by (simp only: far_linear[OF rng] near_linear[OF rng] if_distrib) (simp add: algebra_simps)
qed

lemma kirchhoff_sample_far_only:
  "kirchhoff_sample D G tt ds vel False ti xi = kirchhoff_sample D' G tt ds vel False ti xi"
  by (simp add: kirchhoff_sample_def Let_def)

lemma set_data_fields [simp]:
  "data (set_data d m) = m" "dt (set_data d m) = dt d" "travel_time (set_data d m) = travel_time d"
  "trace_int (set_data d m) = trace_int d" "dist (set_data d m) = dist d"
  "snum (set_data d m) = snum d" "tnum (set_data d m) = tnum d"
  by (simp_all add: set_data_def)

lemma set_data_twice [simp]: "set_data (set_data d m) m' = set_data d m'"
  by (simp add: set_data_def)

lemma mk_array2_fields [simp]:
  "shape0 (mk_array2 n m f) = n" "shape1 (mk_array2 n m f) = m" "rows (mk_array2 n m f) = tab2 n m f"
  by (simp_all add: mk_array2_def)

lemma shape_ok_set_data [simp]:
  "shape_ok (set_data d m) = (shape1 m = tnum d \<and> shape0 m = snum d)"
  by (simp add: shape_ok_def)

lemma gradient_axis0_shift:
  assumes "sorted_wrt (<) x"
  shows "gradient_axis0 (add_const c X) x = gradient_axis0 X x"
proof (cases "gradient_errors (shape0 X) x")
  case (Some e)
  then show ?thesis by (simp add: gradient_axis0_def add_const_def)
next
  case None
  then have n: "length x = shape0 X" "2 \<le> shape0 X"
    by (auto simp: gradient_errors_def split: if_splits)
  have inc: "\<And>j. Suc j < shape0 X \<Longrightarrow> x ! j < x ! Suc j"
    using assms n(1) by (simp add: sorted_wrt_nth_less)
  have "tab2 (shape0 X) (shape1 X)
          (\<lambda>i k. grad_at x (\<lambda>i'. tab2 (shape0 X) (shape1 X) (\<lambda>i j. rows X ! i ! j + c) ! i' ! k) (shape0 X) i) =
        tab2 (shape0 X) (shape1 X) (\<lambda>i k. grad_at x (\<lambda>i'. rows X ! i' ! k) (shape0 X) i)"
  proof (rule tab2_cong)
    fix i k assume ik: "i < shape0 X" "k < shape1 X"
    have "grad_at x (\<lambda>i'. tab2 (shape0 X) (shape1 X) (\<lambda>i j. rows X ! i ! j + c) ! i' ! k) (shape0 X) i =
          grad_at x (\<lambda>i'. rows X ! i' ! k + c) (shape0 X) i"
      by (rule grad_at_cong[OF n(2) ik(1)]) (simp add: ik(2))
    also have "\<dots> = grad_at x (\<lambda>i'. rows X ! i' ! k) (shape0 X) i"
      by (rule grad_at_shift[OF ik(1) inc])
    finally show "grad_at x (\<lambda>i'. tab2 (shape0 X) (shape1 X) (\<lambda>i j. rows X ! i ! j + c) ! i' ! k) (shape0 X) i =
          grad_at x (\<lambda>i'. rows X ! i' ! k) (shape0 X) i" .
  qed
  then show ?thesis using None by (simp add: gradient_axis0_def add_const_def)
qed

lemma sorted_wrt_scaled: "sorted_wrt (<) (tt :: real list) \<Longrightarrow> sorted_wrt (<) (map (\<lambda>t. t / 10 ^ 6) tt)"
  by (simp add: sorted_wrt_map divide_strict_right_mono)

lemma kirchhoff_far_rows:
  "tab2 n m (\<lambda>ti xi. kirchhoff_sample D G tt ds vel False ti xi) =
   tab2 n m (\<lambda>ti xi. kirchhoff_sample D' G tt ds vel False ti xi)"
  by (rule tab2_cong) (rule kirchhoff_sample_far_only)

lemma kirchhoff_shift_main:
  assumes "valid_radargram dat"
  shows "map_sum fst id (migrationKirchhoff (set_data dat (add_const c (data dat))) vel False) =
         map_sum fst id (migrationKirchhoff dat vel False)"
proof -
  have so: "shape_ok dat" and inc: "sorted_wrt (<) (travel_time dat)"
    using assms by (simp_all add: valid_radargram_def)
  have g: "gradient_axis0 (add_const c (data dat)) (map (\<lambda>t. t / 10 ^ 6) (travel_time dat)) =
           gradient_axis0 (data dat) (map (\<lambda>t. t / 10 ^ 6) (travel_time dat))"
    by (rule gradient_axis0_shift[OF sorted_wrt_scaled[OF inc]])
  have so': "shape_ok (set_data dat (add_const c (data dat)))"
    using so by (simp add: shape_ok_def add_const_def)
  show ?thesis
    unfolding migrationKirchhoff_def
    using so so' g
    by (auto split: sum.splits simp: mk_array2_def add_const_def kirchhoff_far_rows[of _ _ "tab2 _ _ _"]
        intro: arg_cong)
qed

lemma kirchhoff_returns:
  assumes "valid_radargram dat" "2 \<le> snum dat"
  shows "\<exists>d. migrationKirchhoff dat vel nf = Inr d"
  using assms
  by (simp add: migrationKirchhoff_def valid_radargram_def gradient_axis0_def gradient_errors_def shape_ok_def)

lemma rg21_valid: "valid_radargram rg21"
  by (simp add: valid_radargram_def rg21_def wf_array2_def shape_ok_def np_mean_def)

text \<open>
  Claim C10, amended.  Over exact real arithmetic, with \<open>nearfield = False\<close>: adding a
  constant \<open>c\<close> to every sample of a valid radargram does not change what
  \<^verbatim>\<open>migrationKirchhoff\<close> does, the same exception or the same returned object; with at
  least two samples per trace it returns.  (On doubles the sum \<^verbatim>\<open>X + c\<close> is rounded and the
  outputs can differ, as the last section shows.)
\<close>

theorem kirchhoff_constant_shift:
  assumes "valid_radargram dat" and "vel \<noteq> 0"
  shows "map_sum fst id (migrationKirchhoff (set_data dat (add_const c (data dat))) vel False) =
         map_sum fst id (migrationKirchhoff dat vel False) \<and>
         (2 \<le> snum dat \<longrightarrow> (\<exists>d. migrationKirchhoff dat vel False = Inr d))"
  using kirchhoff_shift_main[OF assms(1)] kirchhoff_returns[OF assms(1)] by blast

theorem kirchhoff_constant_shift_witness:
  "valid_radargram rg21 \<and> (1::real) \<noteq> 0 \<and>
   map_sum fst id (migrationKirchhoff (set_data rg21 (add_const 5 (data rg21))) 1 False) =
   map_sum fst id (migrationKirchhoff rg21 1 False) \<and>
   (\<exists>d. migrationKirchhoff rg21 1 False = Inr d)"
proof -
  have s: "2 \<le> snum rg21" by (simp add: rg21_def)
  show ?thesis
    using kirchhoff_constant_shift[OF rg21_valid, of 1 5] rg21_valid s by simp
qed

section \<open>Kirchhoff and Stolt migration are linear\<close>

lemma sum_list_linear:
  fixes a b :: "'a::comm_semiring_0"
  shows "(\<Sum>j\<leftarrow>ys. (a * f j + b * g j) * e j) = a * (\<Sum>j\<leftarrow>ys. f j * e j) + b * (\<Sum>j\<leftarrow>ys. g j * e j)"
  by (induction ys) (simp_all add: algebra_simps)

lemma sum_list2_linear:
  fixes a b :: "'a::comm_semiring_0"
  shows "(\<Sum>i\<leftarrow>xs. \<Sum>j\<leftarrow>ys. (a * f i j + b * g i j) * e i j) =
         a * (\<Sum>i\<leftarrow>xs. \<Sum>j\<leftarrow>ys. f i j * e i j) + b * (\<Sum>i\<leftarrow>xs. \<Sum>j\<leftarrow>ys. g i j * e i j)"
  by (induction xs) (simp_all add: sum_list_linear distrib_left add_ac)

lemma pad_at_lincomb:
  "shape0 Y = shape0 X \<Longrightarrow> shape1 Y = shape1 X \<Longrightarrow>
   pad_at (lincomb a X b Y) i j = a * pad_at X i j + b * pad_at Y i j"
  by (simp add: pad_at_def lincomb_def)

lemma fft2_lincomb:
  assumes "shape0 Y = shape0 X" "shape1 Y = shape1 X" "r < n" "c < m"
  shows "fft2 (lincomb a X b Y) n m ! r ! c =
         of_real a * fft2 X n m ! r ! c + of_real b * fft2 Y n m ! r ! c"
  using assms(3,4)
  by (simp add: fft2_def pad_at_lincomb[OF assms(1,2)] sum_list2_linear)

lemma sum_list_cong_upt:
  "(\<And>i. i < n \<Longrightarrow> f i = g i) \<Longrightarrow> (\<Sum>i\<leftarrow>[0..<n]. f i) = (\<Sum>i\<leftarrow>[0..<n]. (g i :: 'a::monoid_add))"
  by (rule arg_cong[where f = sum_list]) simp

lemma ifft2_linear:
  assumes K: "\<And>r c. r < n \<Longrightarrow> c < m \<Longrightarrow> K ! r ! c = a * K1 ! r ! c + b * K2 ! r ! c"
  shows "i < n \<Longrightarrow> j < m \<Longrightarrow> ifft2 K n m ! i ! j = a * ifft2 K1 n m ! i ! j + b * ifft2 K2 n m ! i ! j"
proof -
  assume ij: "i < n" "j < m"
  have "(\<Sum>r\<leftarrow>[0..<n]. \<Sum>c\<leftarrow>[0..<m]. K ! r ! c * (cis (2 * pi * real (r * i) / real n) * cis (2 * pi * real (c * j) / real m))) =
        (\<Sum>r\<leftarrow>[0..<n]. \<Sum>c\<leftarrow>[0..<m]. (a * K1 ! r ! c + b * K2 ! r ! c) * (cis (2 * pi * real (r * i) / real n) * cis (2 * pi * real (c * j) / real m)))"
    by (intro sum_list_cong_upt) (simp add: K)
  then show ?thesis using ij
    by (simp add: ifft2_def sum_list2_linear add_divide_distrib)
qed

lemma fold_in_set:
  "b \<in> S \<Longrightarrow> set js \<subseteq> S \<Longrightarrow> fold (\<lambda>i b. if P i b then i else b) js b \<in> S"
  by (induction js arbitrary: b) auto

lemma best_index_in: "js \<noteq> [] \<Longrightarrow> best_index better xs js \<in> set js"
  unfolding best_index_def by (rule fold_in_set) (cases js, auto)

lemma axis_weights_bound:
  assumes "xs \<noteq> []" "(r, w) \<in> set (axis_weights xs q)"
  shows "r < length xs"
proof -
  define qc where "qc = max (Min (set xs)) (min (Max (set xs)) q)"
  define below where "below = filter (\<lambda>i. xs ! i \<le> qc) [0..<length xs]"
  define above where "above = filter (\<lambda>i. qc < xs ! i) [0..<length xs]"
  have "Min (set xs) \<in> set xs" using assms(1) by (simp add: Min_in)
  then obtain i where i: "i < length xs" "xs ! i = Min (set xs)" by (auto simp: in_set_conv_nth)
  have "xs ! i \<le> qc" using i by (simp add: qc_def)
  then have "i \<in> set below" using i by (simp add: below_def)
  then have ne: "below \<noteq> []" by auto
  have lo: "best_index (\<lambda>u v. v < u) xs below < length xs"
    using best_index_in[OF ne, of "\<lambda>u v. v < u" xs] by (simp add: below_def)
  have hi: "above \<noteq> [] \<Longrightarrow> best_index (\<lambda>u v. u < v) xs above < length xs"
    using best_index_in[of above "\<lambda>u v. u < v" xs] by (simp add: above_def)
  show ?thesis
    using assms(2) lo hi
    unfolding axis_weights_def Let_def qc_def[symmetric] below_def[symmetric] above_def[symmetric]
    by (auto split: if_splits)
qed

lemma sum_list_lin:
  fixes a b :: real
  shows "(\<Sum>p\<leftarrow>W. a * F p + b * G p) = a * (\<Sum>p\<leftarrow>W. F p) + b * (\<Sum>p\<leftarrow>W. G p)"
  by (induction W) (simp_all add: algebra_simps)

lemma weights_sum_linear:
  fixes a b :: real
  shows "(\<Sum>q\<leftarrow>W. wr * snd q * (a * f (fst q) + b * g (fst q))) =
         a * (\<Sum>q\<leftarrow>W. wr * snd q * f (fst q)) + b * (\<Sum>q\<leftarrow>W. wr * snd q * g (fst q))"
  by (induction W) (simp_all add: algebra_simps)

lemma weights_sum2_linear:
  fixes a b :: real
  shows "(\<Sum>p\<leftarrow>W1. \<Sum>q\<leftarrow>W2. snd p * snd q * (a * f (fst p) (fst q) + b * g (fst p) (fst q))) =
         a * (\<Sum>p\<leftarrow>W1. \<Sum>q\<leftarrow>W2. snd p * snd q * f (fst p) (fst q)) +
         b * (\<Sum>p\<leftarrow>W1. \<Sum>q\<leftarrow>W2. snd p * snd q * g (fst p) (fst q))"
  by (simp only: weights_sum_linear sum_list_lin)

lemma weights_sum2_cong:
  assumes "\<And>p q. p \<in> set W1 \<Longrightarrow> q \<in> set W2 \<Longrightarrow> F (fst p) (fst q) = (G (fst p) (fst q) :: real)"
  shows "(\<Sum>p\<leftarrow>W1. \<Sum>q\<leftarrow>W2. snd p * snd q * F (fst p) (fst q)) =
         (\<Sum>p\<leftarrow>W1. \<Sum>q\<leftarrow>W2. snd p * snd q * G (fst p) (fst q))"
proof (rule arg_cong[where f = sum_list], rule map_cong[OF refl])
  fix p assume p: "p \<in> set W1"
  show "(\<Sum>q\<leftarrow>W2. snd p * snd q * F (fst p) (fst q)) = (\<Sum>q\<leftarrow>W2. snd p * snd q * G (fst p) (fst q))"
    by (rule arg_cong[where f = sum_list], rule map_cong[OF refl]) (simp add: assms[OF p])
qed

lemma interp2d_alt:
  "interp2d xs ys Z qx qy =
   (\<Sum>p\<leftarrow>axis_weights ys qy. \<Sum>q\<leftarrow>axis_weights xs qx. snd p * snd q * Z ! (fst p) ! (fst q))"
  by (simp add: interp2d_def split_def)

lemma interp2d_linear:
  assumes "xs \<noteq> []" "ys \<noteq> []"
    and Z: "\<And>r c. r < length ys \<Longrightarrow> c < length xs \<Longrightarrow> Z ! r ! c = a * Z1 ! r ! c + b * Z2 ! r ! c"
  shows "interp2d xs ys Z qx qy = a * interp2d xs ys Z1 qx qy + b * interp2d xs ys Z2 qx qy"
proof -
  have "(\<Sum>p\<leftarrow>axis_weights ys qy. \<Sum>q\<leftarrow>axis_weights xs qx. snd p * snd q * Z ! (fst p) ! (fst q)) =
        (\<Sum>p\<leftarrow>axis_weights ys qy. \<Sum>q\<leftarrow>axis_weights xs qx.
            snd p * snd q * (a * Z1 ! (fst p) ! (fst q) + b * Z2 ! (fst p) ! (fst q)))"
  proof (rule weights_sum2_cong)
    fix p q assume "p \<in> set (axis_weights ys qy)" "q \<in> set (axis_weights xs qx)"
    then have "fst p < length ys" "fst q < length xs"
      using axis_weights_bound[OF assms(2), of "fst p" "snd p" qy]
            axis_weights_bound[OF assms(1), of "fst q" "snd q" qx] by simp_all
    then show "Z ! fst p ! fst q = a * Z1 ! fst p ! fst q + b * Z2 ! fst p ! fst q" by (rule Z)
  qed
  then show ?thesis unfolding interp2d_alt
    using weights_sum2_linear[where f = "\<lambda>r c. Z1 ! r ! c" and g = "\<lambda>r c. Z2 ! r ! c"
        and ?W1.0 = "axis_weights ys qy" and ?W2.0 = "axis_weights xs qx" and a = a and b = b]
    by simp
qed

lemma stolt_interp_linear:
  assumes "kx \<noteq> []" "ws \<noteq> []"
    and FK: "\<And>r c. r < length ws \<Longrightarrow> c < length kx \<Longrightarrow>
                FK ! r ! c = of_real a * FK1 ! r ! c + of_real b * FK2 ! r ! c"
    and len: "length FK = length ws" "length FK1 = length ws" "length FK2 = length ws"
             "\<And>r. r < length ws \<Longrightarrow> length (FK ! r) = length kx"
             "\<And>r. r < length ws \<Longrightarrow> length (FK1 ! r) = length kx"
             "\<And>r. r < length ws \<Longrightarrow> length (FK2 ! r) = length kx"
    and ij: "i < length ws" "j < length kx"
  shows "stolt_interp FK kx ws vel ! i ! j =
         of_real a * stolt_interp FK1 kx ws vel ! i ! j + of_real b * stolt_interp FK2 kx ws vel ! i ! j"
proof -
  have re: "\<And>qx qy. interp2d kx ws (map (map Re) FK) qx qy =
      a * interp2d kx ws (map (map Re) FK1) qx qy + b * interp2d kx ws (map (map Re) FK2) qx qy"
    by (rule interp2d_linear[OF assms(1,2)]) (simp add: len FK)
  have im: "\<And>qx qy. interp2d kx ws (map (map Im) FK) qx qy =
      a * interp2d kx ws (map (map Im) FK1) qx qy + b * interp2d kx ws (map (map Im) FK2) qx qy"
    by (rule interp2d_linear[OF assms(1,2)]) (simp add: len FK)
  show ?thesis using ij
    by (simp add: stolt_interp_def Let_def re im complex_eq_iff)
qed

lemma set2_tab2_nth:
  "i < n \<Longrightarrow> j < m \<Longrightarrow> set2 (tab2 n m f) 0 0 v ! i ! j = (if i = 0 \<and> j = 0 then v else f i j)"
  by (auto simp: set2_def nth_list_update)

lemma stolt_scale_linear:
  assumes KK: "\<And>r c. r < length ws \<Longrightarrow> c < length kx \<Longrightarrow> KK ! r ! c = a * KK1 ! r ! c + b * KK2 ! r ! c"
    and ij: "i < length ws" "j < length kx"
  shows "stolt_scale KK kx ws vel ! i ! j =
         a * stolt_scale KK1 kx ws vel ! i ! j + b * stolt_scale KK2 kx ws vel ! i ! j"
  using ij by (simp add: stolt_scale_def set2_tab2_nth KK algebra_simps add_divide_distrib)

lemma gradient_rows_linear:
  assumes n: "2 \<le> n"
  shows "tab2 n m (\<lambda>i k. grad_at x (\<lambda>i'. tab2 n m (\<lambda>i j. a * A ! i ! j + b * B ! i ! j) ! i' ! k) n i) =
         tab2 n m (\<lambda>i k. a * tab2 n m (\<lambda>i k. grad_at x (\<lambda>i'. A ! i' ! k) n i) ! i ! k
                        + b * tab2 n m (\<lambda>i k. grad_at x (\<lambda>i'. B ! i' ! k) n i) ! i ! k)"
proof (rule tab2_cong)
  fix i k assume ik: "i < n" "k < m"
  have "grad_at x (\<lambda>i'. tab2 n m (\<lambda>i j. a * A ! i ! j + b * B ! i ! j) ! i' ! k) n i =
        grad_at x (\<lambda>i'. a * A ! i' ! k + b * B ! i' ! k) n i"
    by (rule grad_at_cong[OF n ik(1)]) (simp add: ik(2))
  also have "\<dots> = a * grad_at x (\<lambda>i'. A ! i' ! k) n i + b * grad_at x (\<lambda>i'. B ! i' ! k) n i"
    by (rule grad_at_linear)
  finally show "grad_at x (\<lambda>i'. tab2 n m (\<lambda>i j. a * A ! i ! j + b * B ! i ! j) ! i' ! k) n i =
      a * tab2 n m (\<lambda>i k. grad_at x (\<lambda>i'. A ! i' ! k) n i) ! i ! k
    + b * tab2 n m (\<lambda>i k. grad_at x (\<lambda>i'. B ! i' ! k) n i) ! i ! k"
    using ik by simp
qed

lemma kirchhoff_rows_linear:
  assumes "2 \<le> n" "length tt = n" "length ds = m"
  shows "tab2 n m (kirchhoff_sample (tab2 n m (\<lambda>i j. a * A ! i ! j + b * B ! i ! j))
            (tab2 n m (\<lambda>i k. grad_at x (\<lambda>i'. tab2 n m (\<lambda>i j. a * A ! i ! j + b * B ! i ! j) ! i' ! k) n i))
            tt ds vel nf) =
         tab2 n m (\<lambda>i j. a * tab2 n m (kirchhoff_sample A (tab2 n m (\<lambda>i k. grad_at x (\<lambda>i'. A ! i' ! k) n i)) tt ds vel nf) ! i ! j
                        + b * tab2 n m (kirchhoff_sample B (tab2 n m (\<lambda>i k. grad_at x (\<lambda>i'. B ! i' ! k) n i)) tt ds vel nf) ! i ! j)"
proof -
  have tt: "tt \<noteq> []" using assms(1,2) by auto
  show ?thesis
    unfolding gradient_rows_linear[OF assms(1)]
    by (rule tab2_cong) (simp add: kirchhoff_sample_linear[OF tt assms(2,3)])
qed

lemma kirchhoff_linear_main:
  assumes sh: "shape0 X = snum dat" "shape1 X = tnum dat" "shape0 Y = snum dat" "shape1 Y = tnum dat"
    and geo: "length (travel_time dat) = snum dat" "length (dist dat) = tnum dat" "2 \<le> snum dat"
  shows "\<exists>RX RY. shape0 RX = snum dat \<and> shape1 RX = tnum dat \<and>
                 migrationKirchhoff (set_data dat X) vel nf = Inr (set_data dat RX) \<and>
                 migrationKirchhoff (set_data dat Y) vel nf = Inr (set_data dat RY) \<and>
                 migrationKirchhoff (set_data dat (lincomb a X b Y)) vel nf =
                   Inr (set_data dat (lincomb a RX b RY))"
proof -
  define x where "x = map (\<lambda>t. t / 10 ^ 6) (travel_time dat)"
  have x: "map (\<lambda>t. t / 1000000) (travel_time dat) = x" by (simp add: x_def)
  have ge: "\<And>Z. shape0 Z = snum dat \<Longrightarrow>
      gradient_axis0 Z x =
      Inr (tab2 (snum dat) (shape1 Z) (\<lambda>i k. grad_at x (\<lambda>i'. rows Z ! i' ! k) (snum dat) i))"
    using geo by (simp add: gradient_axis0_def gradient_errors_def x_def)
  have X: "migrationKirchhoff (set_data dat X) vel nf =
      Inr (set_data dat (mk_array2 (snum dat) (tnum dat)
        (kirchhoff_sample (rows X) (tab2 (snum dat) (tnum dat)
            (\<lambda>i k. grad_at x (\<lambda>i'. rows X ! i' ! k) (snum dat) i)) (travel_time dat) (dist dat) vel nf)))"
    using sh geo by (simp add: migrationKirchhoff_def x ge)
  have Y: "migrationKirchhoff (set_data dat Y) vel nf =
      Inr (set_data dat (mk_array2 (snum dat) (tnum dat)
        (kirchhoff_sample (rows Y) (tab2 (snum dat) (tnum dat)
            (\<lambda>i k. grad_at x (\<lambda>i'. rows Y ! i' ! k) (snum dat) i)) (travel_time dat) (dist dat) vel nf)))"
    using sh geo by (simp add: migrationKirchhoff_def x ge)
  have Z: "migrationKirchhoff (set_data dat (lincomb a X b Y)) vel nf =
      Inr (set_data dat (mk_array2 (snum dat) (tnum dat)
        (kirchhoff_sample (rows (lincomb a X b Y)) (tab2 (snum dat) (tnum dat)
            (\<lambda>i k. grad_at x (\<lambda>i'. rows (lincomb a X b Y) ! i' ! k) (snum dat) i)) (travel_time dat) (dist dat) vel nf)))"
    using sh geo by (simp add: migrationKirchhoff_def x ge lincomb_def)
  have L: "mk_array2 (snum dat) (tnum dat)
        (kirchhoff_sample (rows (lincomb a X b Y)) (tab2 (snum dat) (tnum dat)
            (\<lambda>i k. grad_at x (\<lambda>i'. rows (lincomb a X b Y) ! i' ! k) (snum dat) i)) (travel_time dat) (dist dat) vel nf) =
      lincomb a (mk_array2 (snum dat) (tnum dat)
        (kirchhoff_sample (rows X) (tab2 (snum dat) (tnum dat)
            (\<lambda>i k. grad_at x (\<lambda>i'. rows X ! i' ! k) (snum dat) i)) (travel_time dat) (dist dat) vel nf))
        b (mk_array2 (snum dat) (tnum dat)
        (kirchhoff_sample (rows Y) (tab2 (snum dat) (tnum dat)
            (\<lambda>i k. grad_at x (\<lambda>i'. rows Y ! i' ! k) (snum dat) i)) (travel_time dat) (dist dat) vel nf))"
    using sh by (simp add: lincomb_def mk_array2_def kirchhoff_rows_linear[OF geo(3) geo(1) geo(2)])
  have "shape0 (mk_array2 (snum dat) (tnum dat)
        (kirchhoff_sample (rows X) (tab2 (snum dat) (tnum dat)
            (\<lambda>i k. grad_at x (\<lambda>i'. rows X ! i' ! k) (snum dat) i)) (travel_time dat) (dist dat) vel nf)) = snum dat"
    "shape1 (mk_array2 (snum dat) (tnum dat)
        (kirchhoff_sample (rows X) (tab2 (snum dat) (tnum dat)
            (\<lambda>i k. grad_at x (\<lambda>i'. rows X ! i' ! k) (snum dat) i)) (travel_time dat) (dist dat) vel nf)) = tnum dat"
    by simp_all
  then show ?thesis unfolding X Y Z L by blast
qed

lemma kirchhoff_small:
  assumes sh: "shape0 X = snum dat" "shape1 X = tnum dat"
    and geo: "length (travel_time dat) = snum dat" "snum dat < 2"
  shows "migrationKirchhoff (set_data dat X) vel nf =
         Inl (IndexError ''index 0 is out of bounds for axis 0 with size 0'', set_data dat X)"
  using assms by (simp add: migrationKirchhoff_def gradient_axis0_def gradient_errors_def)

lemma next_pow2_ge: "0 < n \<Longrightarrow> \<exists>k. next_pow2 n = Inr k \<and> n \<le> k \<and> 0 < k"
proof -
  assume n: "0 < n"
  have "n \<le> 2 ^ floorlog 2 (n - 1)"
  proof (cases "n = 1")
    case True
    then show ?thesis by simp
  next
    case False
    then have "0 < n - 1" using n by simp
    then have "n - 1 < 2 ^ floorlog 2 (n - 1)" using floorlog_bounds[of "n - 1" 2] by simp
    then show ?thesis by simp
  qed
  then show ?thesis using n by (simp add: next_pow2_def)
qed

lemma length_fftfreq [simp]: "length (fftfreq n d) = n"
  by (simp add: fftfreq_def)

lemma length_angular [simp]: "length (angular fs) = length fs"
  by (simp add: angular_def)

lemma fft2_lengths [simp]: "length (fft2 a n m) = n" "r < n \<Longrightarrow> length (fft2 a n m ! r) = m"
  by (simp_all add: fft2_def)

lemma stolt_out_linear:
  assumes sh: "shape0 Y = shape0 X" "shape1 Y = shape1 X"
    and len: "length ws = nt" "length kx = nx" "0 < nt" "0 < nx"
    and ij: "i < nt" "j < nx"
  shows "stolt_out (lincomb a X b Y) nt nx kx ws vel ! i ! j =
         of_real a * stolt_out X nt nx kx ws vel ! i ! j + of_real b * stolt_out Y nt nx kx ws vel ! i ! j"
proof -
  have ne: "kx \<noteq> []" "ws \<noteq> []" using len by auto
  have I: "\<And>r c. r < length ws \<Longrightarrow> c < length kx \<Longrightarrow>
      stolt_interp (fft2 (lincomb a X b Y) nt nx) kx ws vel ! r ! c =
      of_real a * stolt_interp (fft2 X nt nx) kx ws vel ! r ! c +
      of_real b * stolt_interp (fft2 Y nt nx) kx ws vel ! r ! c"
    by (rule stolt_interp_linear[OF ne]) (simp_all add: len fft2_lincomb[OF sh])
  have S: "\<And>r c. r < nt \<Longrightarrow> c < nx \<Longrightarrow>
      stolt_scale (stolt_interp (fft2 (lincomb a X b Y) nt nx) kx ws vel) kx ws vel ! r ! c =
      of_real a * stolt_scale (stolt_interp (fft2 X nt nx) kx ws vel) kx ws vel ! r ! c +
      of_real b * stolt_scale (stolt_interp (fft2 Y nt nx) kx ws vel) kx ws vel ! r ! c"
    using stolt_scale_linear[of ws kx _ "of_real a" _ "of_real b", OF I] len by simp
  show ?thesis
    unfolding stolt_out_def by (rule ifft2_linear[OF S ij])
qed

lemma migrationStolt_eq:
  assumes "shape0 Z = snum dat" "shape1 Z = tnum dat" "next_pow2 (snum dat) = Inr nt" "next_pow2 (tnum dat) = Inr nx"
    and "2 \<le> nt" "2 \<le> nx"
  shows "migrationStolt (set_data dat Z) vel =
     Inr (set_data dat (mk_array2 (snum dat) (tnum dat)
        (\<lambda>i j. Re (stolt_out Z nt nx (angular (fftfreq nx (np_mean (trace_int dat))))
                      (angular (fftfreq nt (dt dat))) vel ! i ! j))))"
  using assms by (simp add: migrationStolt_def stolt_out_def Let_def interp2d_errors_def)

text \<open>The exception of \<^verbatim>\<open>migrationStolt\<close> on a radargram with one trace or one sample.\<close>

lemma next_pow2_one: "next_pow2 (Suc 0) = Inr (Suc 0)"
  by (simp add: next_pow2_def floorlog_def)

lemma stolt_small:
  assumes sh: "shape0 Z = snum dat" "shape1 Z = tnum dat"
    and pos: "0 < snum dat" "0 < tnum dat" and small: "snum dat < 2 \<or> tnum dat < 2"
  shows "migrationStolt (set_data dat Z) vel =
         Inl (if tnum dat < 2 then FitpackError ''(mx>kx) failed for hidden mx''
              else FitpackError ''(my>ky) failed for hidden my'', set_data dat Z)"
proof -
  obtain nt where nt: "next_pow2 (snum dat) = Inr nt" "snum dat \<le> nt"
    using next_pow2_ge[OF pos(1)] by auto
  obtain nx where nx: "next_pow2 (tnum dat) = Inr nx" "tnum dat \<le> nx"
    using next_pow2_ge[OF pos(2)] by auto
  show ?thesis
  proof (cases "tnum dat < 2")
    case True
    then have "tnum dat = Suc 0" using pos(2) by simp
    then have "nx = Suc 0" using nx(1) by (simp add: next_pow2_one)
    then show ?thesis using True sh nt nx
      by (simp add: migrationStolt_def Let_def interp2d_errors_def shape_ok_def)
  next
    case False
    then have "snum dat = Suc 0" using pos(1) small by simp
    then have "nt = Suc 0" using nt(1) by (simp add: next_pow2_one)
    then show ?thesis using False sh nt nx
      by (simp add: migrationStolt_def Let_def interp2d_errors_def shape_ok_def)
  qed
qed

lemma stolt_linear_main:
  assumes sh: "shape0 X = snum dat" "shape1 X = tnum dat" "shape0 Y = snum dat" "shape1 Y = tnum dat"
    and big: "2 \<le> snum dat" "2 \<le> tnum dat"
  shows "\<exists>RX RY. shape0 RX = snum dat \<and> shape1 RX = tnum dat \<and>
                 migrationStolt (set_data dat X) vel = Inr (set_data dat RX) \<and>
                 migrationStolt (set_data dat Y) vel = Inr (set_data dat RY) \<and>
                 migrationStolt (set_data dat (lincomb a X b Y)) vel =
                   Inr (set_data dat (lincomb a RX b RY))"
proof -
  have pos: "0 < snum dat" "0 < tnum dat" using big by simp_all
  obtain nt where nt: "next_pow2 (snum dat) = Inr nt" "snum dat \<le> nt" "0 < nt"
    using next_pow2_ge[OF pos(1)] by auto
  obtain nx where nx: "next_pow2 (tnum dat) = Inr nx" "tnum dat \<le> nx" "0 < nx"
    using next_pow2_ge[OF pos(2)] by auto
  have two: "2 \<le> nt" "2 \<le> nx" using big nt(2) nx(2) by simp_all
  define kx where "kx = angular (fftfreq nx (np_mean (trace_int dat)))"
  define ws where "ws = angular (fftfreq nt (dt dat))"
  have len: "length ws = nt" "length kx = nx" by (simp_all add: ws_def kx_def)
  have shL: "shape0 (lincomb a X b Y) = snum dat" "shape1 (lincomb a X b Y) = tnum dat"
    using sh by (simp_all add: lincomb_def)
  have shXY: "shape0 Y = shape0 X" "shape1 Y = shape1 X" using sh by simp_all
  have L: "mk_array2 (snum dat) (tnum dat) (\<lambda>i j. Re (stolt_out (lincomb a X b Y) nt nx kx ws vel ! i ! j)) =
           lincomb a (mk_array2 (snum dat) (tnum dat) (\<lambda>i j. Re (stolt_out X nt nx kx ws vel ! i ! j)))
                   b (mk_array2 (snum dat) (tnum dat) (\<lambda>i j. Re (stolt_out Y nt nx kx ws vel ! i ! j)))"
  proof -
    have "tab2 (snum dat) (tnum dat) (\<lambda>i j. Re (stolt_out (lincomb a X b Y) nt nx kx ws vel ! i ! j)) =
          tab2 (snum dat) (tnum dat) (\<lambda>i j.
             a * tab2 (snum dat) (tnum dat) (\<lambda>i j. Re (stolt_out X nt nx kx ws vel ! i ! j)) ! i ! j +
             b * tab2 (snum dat) (tnum dat) (\<lambda>i j. Re (stolt_out Y nt nx kx ws vel ! i ! j)) ! i ! j)"
    proof (rule tab2_cong)
      fix i j assume ij: "i < snum dat" "j < tnum dat"
      then have ij': "i < nt" "j < nx" using nt(2) nx(2) by auto
      show "Re (stolt_out (lincomb a X b Y) nt nx kx ws vel ! i ! j) =
            a * tab2 (snum dat) (tnum dat) (\<lambda>i j. Re (stolt_out X nt nx kx ws vel ! i ! j)) ! i ! j +
            b * tab2 (snum dat) (tnum dat) (\<lambda>i j. Re (stolt_out Y nt nx kx ws vel ! i ! j)) ! i ! j"
        using ij by (simp add: stolt_out_linear[OF shXY len nt(3) nx(3) ij'])
    qed
    then show ?thesis by (simp add: lincomb_def mk_array2_def)
  qed
  show ?thesis
    unfolding migrationStolt_eq[OF sh(1,2) nt(1) nx(1) two] migrationStolt_eq[OF sh(3,4) nt(1) nx(1) two]
      migrationStolt_eq[OF shL nt(1) nx(1) two] kx_def[symmetric] ws_def[symmetric] L
    using mk_array2_fields(1,2)[of "snum dat" "tnum dat" "\<lambda>i j. Re (stolt_out X nt nx kx ws vel ! i ! j)"]
    by blast
qed

lemma lincomb_zero: "lincomb 0 X 0 Y = zeros2 (shape0 X) (shape1 X)"
  by (simp add: lincomb_def zeros2_def)

lemma valid_shapes:
  "valid_radargram (set_data dat X) \<Longrightarrow>
     shape0 X = snum dat \<and> shape1 X = tnum dat \<and> length (travel_time dat) = snum dat \<and>
     length (dist dat) = tnum dat \<and> 0 < snum dat \<and> 0 < tnum dat"
proof -
  assume v: "valid_radargram (set_data dat X)"
  then have tt: "travel_time dat \<noteq> []" "length (travel_time dat) = snum dat"
    and m: "0 < np_mean (trace_int dat)" "length (trace_int dat) = tnum dat"
    by (simp_all add: valid_radargram_def)
  have s: "0 < snum dat" using tt by (cases "snum dat") auto
  have t: "0 < tnum dat"
  proof (rule ccontr)
    assume "\<not> 0 < tnum dat"
    then have "trace_int dat = []" using m(2) by simp
    then show False using m(1) by (simp add: np_mean_def)
  qed
  show ?thesis using v s t by (simp add: valid_radargram_def shape_ok_def)
qed

lemma lin_all:
  assumes "valid_radargram (set_data dat X)" "valid_radargram (set_data dat Y)"
  shows "(2 \<le> snum dat \<longrightarrow>
           (\<exists>RX RY. shape0 RX = snum dat \<and> shape1 RX = tnum dat \<and>
                 migrationKirchhoff (set_data dat X) kvel nf = Inr (set_data dat RX) \<and>
                 migrationKirchhoff (set_data dat Y) kvel nf = Inr (set_data dat RY) \<and>
                 migrationKirchhoff (set_data dat (lincomb a X b Y)) kvel nf =
                   Inr (set_data dat (lincomb a RX b RY)))) \<and>
         (2 \<le> snum dat \<and> 2 \<le> tnum dat \<longrightarrow>
           (\<exists>RX RY. shape0 RX = snum dat \<and> shape1 RX = tnum dat \<and>
                 migrationStolt (set_data dat X) svel = Inr (set_data dat RX) \<and>
                 migrationStolt (set_data dat Y) svel = Inr (set_data dat RY) \<and>
                 migrationStolt (set_data dat (lincomb a X b Y)) svel =
                   Inr (set_data dat (lincomb a RX b RY))))"
  using valid_shapes[OF assms(1)] valid_shapes[OF assms(2)]
    kirchhoff_linear_main[of X dat Y kvel nf a b] stolt_linear_main[of X dat Y svel a b]
  by blast

text \<open>
  Claim C8.  Over exact reals, for valid radargrams with the same geometry and sample
  matrices \<open>X\<close> and \<open>Y\<close>, and for all scalars \<open>a\<close>, \<open>b\<close>: migrating \<open>a X + b Y\<close> gives
  \<open>a\<close> times the migration of \<open>X\<close> plus \<open>b\<close> times the migration of \<open>Y\<close>, for Kirchhoff
  (with or without the near field) and for Stolt.  Kirchhoff returns when there are at
  least two samples per trace, Stolt when there are at least two samples and two traces;
  otherwise the routine raises the same exception for all three inputs and leaves the
  samples as they were.
\<close>

theorem kirchhoff_stolt_linear:
  assumes "valid_radargram (set_data dat X)" and "valid_radargram (set_data dat Y)"
    and "kvel \<noteq> 0" and "svel \<noteq> 0"
  shows "(2 \<le> snum dat \<longrightarrow>
           (\<exists>RX RY. shape0 RX = snum dat \<and> shape1 RX = tnum dat \<and>
                 migrationKirchhoff (set_data dat X) kvel nf = Inr (set_data dat RX) \<and>
                 migrationKirchhoff (set_data dat Y) kvel nf = Inr (set_data dat RY) \<and>
                 migrationKirchhoff (set_data dat (lincomb a X b Y)) kvel nf =
                   Inr (set_data dat (lincomb a RX b RY)))) \<and>
         (snum dat < 2 \<longrightarrow>
           (\<exists>e. migrationKirchhoff (set_data dat X) kvel nf = Inl (e, set_data dat X) \<and>
                migrationKirchhoff (set_data dat Y) kvel nf = Inl (e, set_data dat Y) \<and>
                migrationKirchhoff (set_data dat (lincomb a X b Y)) kvel nf =
                   Inl (e, set_data dat (lincomb a X b Y)))) \<and>
         (2 \<le> snum dat \<and> 2 \<le> tnum dat \<longrightarrow>
           (\<exists>RX RY. shape0 RX = snum dat \<and> shape1 RX = tnum dat \<and>
                 migrationStolt (set_data dat X) svel = Inr (set_data dat RX) \<and>
                 migrationStolt (set_data dat Y) svel = Inr (set_data dat RY) \<and>
                 migrationStolt (set_data dat (lincomb a X b Y)) svel =
                   Inr (set_data dat (lincomb a RX b RY)))) \<and>
         (snum dat < 2 \<or> tnum dat < 2 \<longrightarrow>
           (\<exists>e. migrationStolt (set_data dat X) svel = Inl (e, set_data dat X) \<and>
                migrationStolt (set_data dat Y) svel = Inl (e, set_data dat Y) \<and>
                migrationStolt (set_data dat (lincomb a X b Y)) svel =
                   Inl (e, set_data dat (lincomb a X b Y))))"
proof -
  note vX = valid_shapes[OF assms(1)] and vY = valid_shapes[OF assms(2)]
  have shL: "shape0 (lincomb a X b Y) = snum dat" "shape1 (lincomb a X b Y) = tnum dat"
    using vX by (simp_all add: lincomb_def)
  have small: "snum dat < 2 \<longrightarrow>
           (\<exists>e. migrationKirchhoff (set_data dat X) kvel nf = Inl (e, set_data dat X) \<and>
                migrationKirchhoff (set_data dat Y) kvel nf = Inl (e, set_data dat Y) \<and>
                migrationKirchhoff (set_data dat (lincomb a X b Y)) kvel nf =
                   Inl (e, set_data dat (lincomb a X b Y)))"
    using kirchhoff_small[of X dat kvel nf] kirchhoff_small[of Y dat kvel nf]
      kirchhoff_small[of "lincomb a X b Y" dat kvel nf] vX vY shL by blast
  have ssmall: "snum dat < 2 \<or> tnum dat < 2 \<longrightarrow>
           (\<exists>e. migrationStolt (set_data dat X) svel = Inl (e, set_data dat X) \<and>
                migrationStolt (set_data dat Y) svel = Inl (e, set_data dat Y) \<and>
                migrationStolt (set_data dat (lincomb a X b Y)) svel =
                   Inl (e, set_data dat (lincomb a X b Y)))"
  proof (intro impI)
    assume sm: "snum dat < 2 \<or> tnum dat < 2"
    have sX: "shape0 X = snum dat" "shape1 X = tnum dat" and pos: "0 < snum dat" "0 < tnum dat"
      using vX by simp_all
    have sY: "shape0 Y = snum dat" "shape1 Y = tnum dat" using vY by simp_all
    show "\<exists>e. migrationStolt (set_data dat X) svel = Inl (e, set_data dat X) \<and>
                migrationStolt (set_data dat Y) svel = Inl (e, set_data dat Y) \<and>
                migrationStolt (set_data dat (lincomb a X b Y)) svel =
                   Inl (e, set_data dat (lincomb a X b Y))"
      using stolt_small[OF sX pos sm, of svel] stolt_small[OF sY pos sm, of svel]
        stolt_small[OF shL pos sm, of svel] by (intro exI conjI)
  qed
  show ?thesis using lin_all[OF assms(1,2), of kvel nf a b svel] small ssmall by blast
qed

lemma rg22_valid: "valid_radargram rg22"
  by (simp add: valid_radargram_def rg22_def wf_array2_def shape_ok_def np_mean_def)

lemma rg22_ym22_valid: "valid_radargram (set_data rg22 ym22)"
  by (simp add: valid_radargram_def rg22_def ym22_def wf_array2_def shape_ok_def np_mean_def set_data_def)

theorem kirchhoff_stolt_linear_witness:
  "valid_radargram (set_data rg22 (data rg22)) \<and> valid_radargram (set_data rg22 ym22) \<and>
   (1::real) \<noteq> 0 \<and>
   (\<exists>RX RY. shape0 RX = 2 \<and> shape1 RX = 2 \<and>
       migrationKirchhoff (set_data rg22 (data rg22)) 1 True = Inr (set_data rg22 RX) \<and>
       migrationKirchhoff (set_data rg22 ym22) 1 True = Inr (set_data rg22 RY) \<and>
       migrationKirchhoff (set_data rg22 (lincomb 2 (data rg22) 3 ym22)) 1 True =
         Inr (set_data rg22 (lincomb 2 RX 3 RY))) \<and>
   (\<exists>RX RY. shape0 RX = 2 \<and> shape1 RX = 2 \<and>
       migrationStolt (set_data rg22 (data rg22)) 1 = Inr (set_data rg22 RX) \<and>
       migrationStolt (set_data rg22 ym22) 1 = Inr (set_data rg22 RY) \<and>
       migrationStolt (set_data rg22 (lincomb 2 (data rg22) 3 ym22)) 1 =
         Inr (set_data rg22 (lincomb 2 RX 3 RY)))"
proof -
  have v: "valid_radargram (set_data rg22 (data rg22))"
    using rg22_valid by (simp add: set_data_def rg22_def)
  have s: "snum rg22 = 2" "tnum rg22 = 2" by (simp_all add: rg22_def)
  have one: "(1::real) \<noteq> 0" by simp
  show ?thesis
    using kirchhoff_stolt_linear[OF v rg22_ym22_valid one one, of True 2 3] v rg22_ym22_valid
    by (simp add: s)
qed


section \<open>Zero samples are migrated to zero samples\<close>

lemma tab2_const: "tab2 n m (\<lambda>i j. c) = replicate n (replicate m c)"
  by (simp add: tab2_def map_replicate_const)

lemma sum_list_zeros: "(\<Sum>i\<leftarrow>xs. (0::'a::monoid_add)) = 0"
  by (induction xs) simp_all

lemma pad_at_zeros: "pad_at (zeros2 n m) i j = 0"
  by (simp add: pad_at_def zeros2_def)

lemma fft2_zeros: "fft2 (zeros2 n m) nt nx = replicate nt (replicate nx 0)"
  by (simp add: fft2_def pad_at_zeros sum_list_zeros tab2_const)

lemma fft2_zeros_fin: "map (map Fin) (fft2 (zeros2 n m) nt nx) = zmat nt nx"
  by (simp add: fft2_zeros zmat_def zrow_def)

lemma fin_zero_times [simp]: "Fin (0::complex) * Fin c = Fin 0" "Fin c * Fin (0::complex) = Fin 0"
  by simp_all

lemma fin_zero_plus [simp]: "Fin (0::complex) + Fin 0 = Fin 0"
  by simp

lemma scatter_add_zero:
  assumes "list_all (\<lambda>v. v = Fin 0) vs" "list_all (\<lambda>k. k < length row) ik" "list_all (\<lambda>v. v = Fin 0) row"
  shows "scatter_add row ik vs = row"
  using assms unfolding scatter_add_def
proof (induction ik arbitrary: vs)
  case Nil
  then show ?case by simp
next
  case (Cons k ik)
  show ?case
  proof (cases vs)
    case Nil
    then show ?thesis by simp
  next
    case (Cons v vs')
    have "k < length row" using Cons.prems(2) by simp
    then have "row ! k = Fin 0" using Cons.prems(3) by (simp add: list_all_length)
    then have "row[k := row ! k + v] = row"
      using Cons Cons.prems(1) list_update_id[of row k] by simp
    then show ?thesis using Cons Cons.IH[of vs'] Cons.prems by simp
  qed
qed


lemma map2_zrow_times:
  "list_all (\<lambda>v. v = Fin 0) xs \<Longrightarrow> list_all (\<lambda>v. v = Fin (0::complex)) (map2 (*) xs (map Fin cs))"
  by (simp add: list_all_length)

lemma const_tau_step_zero:
  assumes "list_all (\<lambda>v. v = Fin 0) FFK" "list_all (\<lambda>k. k < n) ik" "itau < r"
  shows "\<exists>FFK'. list_all (\<lambda>v. v = Fin 0) FFK' \<and>
           const_tau_step ik (map Fin cs) itau (FFK, zmat r n) = (FFK', zmat r n)"
proof -
  have z: "list_all (\<lambda>v. v = Fin 0) (map2 (*) FFK (map Fin cs))"
    by (rule map2_zrow_times[OF assms(1)])
  have row: "zmat r n ! itau = zrow n" using assms(3) by (simp add: zmat_def)
  have "scatter_add (zrow n) ik (map2 (*) FFK (map Fin cs)) = zrow n"
    using assms(2) by (intro scatter_add_zero[OF z]) (simp_all add: zrow_def list_all_length)
  then have "(zmat r n)[itau := scatter_add (zmat r n ! itau) ik (map2 (*) FFK (map Fin cs))] = zmat r n"
    using row list_update_id[of "zmat r n" itau] by simp
  then show ?thesis using z by (simp add: const_tau_step_def Let_def)
qed

lemma const_tau_fold_zero:
  assumes "list_all (\<lambda>v. v = Fin 0) FFK" "list_all (\<lambda>k. k < n) ik" "list_all (\<lambda>i. i < r) taus"
  shows "snd (fold (const_tau_step ik (map Fin cs)) taus (FFK, zmat r n)) = zmat r n"
  using assms
proof (induction taus arbitrary: FFK)
  case Nil
  then show ?case by simp
next
  case (Cons t taus)
  then have t: "t < r" by simp
  obtain FFK' where F: "list_all (\<lambda>v. v = Fin 0) FFK'"
      "const_tau_step ik (map Fin cs) t (FFK, zmat r n) = (FFK', zmat r n)"
    using const_tau_step_zero[OF Cons.prems(1,2) t] by blast
  show ?case using Cons.IH[OF F(1) Cons.prems(2)] Cons.prems(3) F(2) by simp
qed

lemma const_freq_step_zero:
  assumes "iw < nt"
  shows "const_freq_step dat v kx ws (zmat nt (length kx)) iw (zmat (snum dat) (length kx)) =
         zmat (snum dat) (length kx)"
proof -
  define w where "w = omega (dt dat) (ws ! iw)"
  define vkx2 where "vkx2 = map (\<lambda>k. (v * k / 2) ^ 2) kx"
  define ik where "ik = filter (\<lambda>k. vkx2 ! k < w ^ 2) [0..<length kx]"
  have ik: "list_all (\<lambda>k. k < length kx) ik" by (simp add: ik_def list_all_iff)
  have F: "list_all (\<lambda>v. v = Fin 0) (map (\<lambda>k. zmat nt (length kx) ! iw ! k) ik)"
    using ik assms by (simp add: list_all_iff zmat_def zrow_def)
  have cp: "map (\<lambda>p. Fin (cnj (cis p))) (map (\<lambda>k. - w * dt dat * sqrt (1 - vkx2 ! k / w ^ 2)) ik) =
            map Fin (map (\<lambda>k. cnj (cis (- w * dt dat * sqrt (1 - vkx2 ! k / w ^ 2)))) ik)"
    by simp
  show ?thesis
    unfolding const_freq_step_def Let_def w_def[symmetric] vkx2_def[symmetric] ik_def[symmetric] cp
    by (rule const_tau_fold_zero[OF F ik]) (simp add: list_all_iff)
qed

lemma const_freq_fold_zero:
  "list_all (\<lambda>i. i < nt) iws \<Longrightarrow>
   fold (const_freq_step dat v kx ws (zmat nt (length kx))) iws (zmat (snum dat) (length kx)) =
   zmat (snum dat) (length kx)"
  by (induction iws) (simp_all add: const_freq_step_zero)

lemma length_coss_of [simp]: "length (coss_of vbg w kx) = length kx"
  by (simp add: coss_of_def)

lemma length_cshift_of [simp]: "length (cshift_of w d coss) = length coss"
  by (simp add: cshift_of_def)

lemma length_evanescent_idx [simp]: "length (evanescent_idx coss tau tlast) = length coss"
  by (simp add: evanescent_idx_def)

lemma zrow_shift: "length cs = n \<Longrightarrow> map2 (\<lambda>z c. z * Fin c) (zrow n) cs = zrow n"
  by (simp add: zrow_def list_eq_iff_nth_eq)

lemma zero_where_zrow: "zero_where idx (zrow n) = zrow n"
  by (simp add: zero_where_def zrow_def list_eq_iff_nth_eq)

lemma zrow_add: "map2 (+) (zrow n) (zrow n) = zrow n"
  by (simp add: zrow_def list_eq_iff_nth_eq)

lemma zmat_update: "i < r \<Longrightarrow> (zmat r n)[i := zrow n] = zmat r n"
  using list_update_id[of "zmat r n" i] by (simp add: zmat_def)

lemma zmat_nth: "i < r \<Longrightarrow> zmat r n ! i = zrow n"
  by (simp add: zmat_def)

lemma ps_step_layered_zero:
  assumes "iw < nt" "itau < r" "length kx = n"
  shows "ps_step dat (VLayered v) kx ws stencil itau iw
           \<lparr>st_FK = zmat nt n, st_TK = zmat r n, st_FFX_last = l\<rparr> =
         Inr \<lparr>st_FK = zmat nt n, st_TK = zmat r n, st_FFX_last = l\<rparr>"
  using assms
  by (simp add: ps_step_def Let_def ebind_def zmat_nth zrow_shift zero_where_zrow zrow_add zmat_update)

lemma efold_fixed: "(\<And>x. x \<in> set xs \<Longrightarrow> f x s = Inr s) \<Longrightarrow> efold f xs s = Inr s"
  by (induction xs) (simp_all add: ebind_def)

lemma ps_loops_layered_zero:
  assumes "snum dat \<le> length (travel_time dat)" "length kx = n"
  shows "ps_loops dat (VLayered v) kx ws stencil
           \<lparr>st_FK = zmat (length ws) n, st_TK = zmat (snum dat) n, st_FFX_last = l\<rparr> =
         Inr \<lparr>st_FK = zmat (length ws) n, st_TK = zmat (snum dat) n, st_FFX_last = l\<rparr>"
  unfolding ps_loops_def
proof (rule efold_fixed)
  fix itau assume "itau \<in> set [0..<snum dat]"
  then have it: "itau < snum dat" "itau < length (travel_time dat)" using assms(1) by auto
  have "efold (ps_step dat (VLayered v) kx ws stencil itau) [0..<length ws]
          \<lparr>st_FK = zmat (length ws) n, st_TK = zmat (snum dat) n, st_FFX_last = l\<rparr> =
        Inr \<lparr>st_FK = zmat (length ws) n, st_TK = zmat (snum dat) n, st_FFX_last = l\<rparr>"
    by (rule efold_fixed) (simp add: ps_step_layered_zero[OF _ it(1) assms(2)])
  then show "(if itau < length (travel_time dat)
        then efold (ps_step dat (VLayered v) kx ws stencil itau) [0..<length ws]
              \<lparr>st_FK = zmat (length ws) n, st_TK = zmat (snum dat) n, st_FFX_last = l\<rparr>
        else Inl (IndexError ''index out of bounds'')) =
       Inr \<lparr>st_FK = zmat (length ws) n, st_TK = zmat (snum dat) n, st_FFX_last = l\<rparr>"
    using it(2) by simp
qed

lemma finish_zero:
  "map (\<lambda>row. map (\<lambda>z. divide_by z s) (take t row)) (zmat r n) = zmat r (min t n)"
  by (simp add: zmat_def zrow_def divide_by_def min.commute)

lemma zmat_replicate: "replicate r (replicate n (Fin 0)) = zmat r n"
  by (simp add: zmat_def zrow_def)

lemma phaseShift_scalar_zero:
  "phaseShift dat (VScalar v) kx ws (zmat (length ws) (length kx)) =
   Inr (zmat (snum dat) (min (tnum dat) (length kx)))"
  by (simp add: phaseShift_def Let_def ebind_def zmat_replicate const_freq_fold_zero list_all_iff finish_zero)

lemma phaseShift_layered_zero:
  assumes "length v = snum dat" "0 < snum dat" "snum dat \<le> length (travel_time dat)"
  shows "phaseShift dat (VLayered v) kx ws (zmat (length ws) (length kx)) =
   Inr (zmat (snum dat) (min (tnum dat) (length kx)))"
  using assms
  by (simp add: phaseShift_def Let_def ebind_def zmat_replicate vlen_def
      ps_loops_layered_zero[OF assms(3) refl] finish_zero)

lemma sum_list_fin_zero: "(\<Sum>n\<leftarrow>xs. Fin (0::complex) * Fin (c n)) = Fin 0"
  by (induction xs) (simp_all add: zero_ieee_def)

lemma ifft_zrow: "map real_part (ifft_ieee (zrow n)) = replicate n (Fin 0)"
proof -
  have "\<And>k. (\<Sum>m\<leftarrow>[0..<n]. zrow n ! m * Fin (cis (2 * pi * real (k * m) / real n))) = Fin 0"
  proof -
    fix k
    have "(\<Sum>m\<leftarrow>[0..<n]. zrow n ! m * Fin (cis (2 * pi * real (k * m) / real n))) =
          (\<Sum>m\<leftarrow>[0..<n]. (0::complex ieee))"
      by (rule sum_list_cong_upt) (simp add: zrow_def zero_ieee_def)
    also have "\<dots> = 0" by (rule sum_list_zeros)
    finally show "(\<Sum>m\<leftarrow>[0..<n]. zrow n ! m * Fin (cis (2 * pi * real (k * m) / real n))) = Fin 0"
      by (simp add: zero_ieee_def)
  qed
  then show ?thesis
    by (simp add: ifft_ieee_def zrow_def divide_by_def real_part_def map_replicate_const)
qed

lemma kirchhoff_zero:
  assumes "length (travel_time dat) = snum dat" "length (dist dat) = tnum dat" "2 \<le> snum dat"
  shows "migrationKirchhoff (set_data dat (zeros2 (snum dat) (tnum dat))) vel nf =
         Inr (set_data dat (zeros2 (snum dat) (tnum dat)))"
proof -
  define Z :: "real array2" where "Z = zeros2 (snum dat) (tnum dat)"
  have sh: "shape0 Z = snum dat" "shape1 Z = tnum dat" by (simp_all add: Z_def zeros2_def)
  obtain RX RY where R: "shape0 RX = snum dat" "shape1 RX = tnum dat"
      "migrationKirchhoff (set_data dat (lincomb 0 Z 0 Z)) vel nf = Inr (set_data dat (lincomb 0 RX 0 RY))"
    using kirchhoff_linear_main[OF sh sh assms, of vel nf 0 0] by blast
  show ?thesis using R by (simp add: lincomb_zero sh Z_def[symmetric])
qed


lemma interp1d_length: "interp1d x y q = Inr r \<Longrightarrow> length r = length q"
  by (auto simp: interp1d_def Let_def split: if_splits)

lemma gradient1_length: "gradient1 f x = Inr g \<Longrightarrow> length g = length f"
  by (auto simp: gradient1_def split: option.splits)

lemma ebind_Inr: "ebind m f = Inr y \<Longrightarrow> \<exists>x. m = Inr x \<and> f x = Inr y"
  by (cases m) (simp_all add: ebind_def)

lemma profile_from_length: "profile_from tofz zs twtt = Inr p \<Longrightarrow> length p = length twtt"
  unfolding profile_from_def
  by (auto dest!: ebind_Inr interp1d_length gradient1_length split: if_splits)

lemma layered_profile_length: "layered_profile vv vz twtt = Inr p \<Longrightarrow> length p = length twtt"
  unfolding layered_profile_def by (auto dest!: ebind_Inr profile_from_length)

lemma getVelocityProfile_layered_length:
  "getVelocityProfile dat vel = Inr (VLayered p) \<Longrightarrow> length p = length (travel_time dat)"
  unfolding getVelocityProfile_def Let_def
  by (auto split: velocity.splits if_splits dest!: ebind_Inr layered_profile_length)

lemma getVelocityProfile_data:
  "getVelocityProfile (set_data dat m) vel = getVelocityProfile dat vel"
  by (cases vel) (simp_all add: getVelocityProfile_def gridded_profile_def Let_def cong del: if_weak_cong)

lemma zero_rows:
  "map (\<lambda>row. map real_part (ifft_ieee row)) (zmat r n) = rows (zeros2 r n :: real ieee array2)"
  by (simp add: zmat_def ifft_zrow zeros2_def tab2_const zero_ieee_def)

lemma length_zmat [simp]: "length (zmat r n) = r"
  by (simp add: zmat_def)

lemma zeros2_eq: "\<lparr>shape0 = r, shape1 = n, rows = rows (zeros2 r n)\<rparr> = zeros2 r n"
  by (simp add: zeros2_def mk_array2_def)

lemma phaseshift_zero:
  assumes pos: "0 < snum dat" and tpos: "0 < tnum dat" and tt: "length (travel_time dat) = snum dat"
    and lv: "loaded_velocity vel vel_fn = Inr vel1"
    and gv: "getVelocityProfile dat vel1 = Inr (VScalar v) \<or> getVelocityProfile dat vel1 = Inr (VLayered p)"
  shows "migrationPhaseShift (set_data dat (zeros2 (snum dat) (tnum dat))) vel vel_fn =
         Inr (set_data dat (zeros2 (snum dat) (tnum dat)))"
proof -
  obtain nt where nt: "next_pow2 (snum dat) = Inr nt" using next_pow2_ge[OF pos] by blast
  define kx where "kx = angular (fftfreq (tnum dat) (np_mean (trace_int dat)))"
  define ws where "ws = angular (fftfreq nt (dt dat))"
  have len: "length kx = tnum dat" "length ws = nt" by (simp_all add: kx_def ws_def)
  have FK: "map (map Fin) (fft2 (zeros2 (snum dat) (tnum dat)) nt (tnum dat)) = zmat (length ws) (length kx)"
    by (simp add: fft2_zeros_fin len)
  have ps: "\<And>vm. getVelocityProfile dat vel1 = Inr vm \<Longrightarrow>
      phaseShift (set_data dat (zeros2 (snum dat) (tnum dat)) :: real RadarData) vm kx ws (zmat (length ws) (length kx)) =
      Inr (zmat (snum dat) (tnum dat))"
  proof -
    fix vm assume vm: "getVelocityProfile dat vel1 = Inr vm"
    show "phaseShift (set_data dat (zeros2 (snum dat) (tnum dat)) :: real RadarData) vm kx ws (zmat (length ws) (length kx)) =
      Inr (zmat (snum dat) (tnum dat))"
    proof (cases "vm = VScalar v")
      case True
      then show ?thesis using phaseShift_scalar_zero[of "set_data dat (zeros2 (snum dat) (tnum dat))" v kx ws]
        by (simp add: len)
    next
      case False
      then have vl: "vm = VLayered p" using gv vm by auto
      then have "length p = snum dat" using getVelocityProfile_layered_length[of dat vel1 p] vm tt by simp
      then show ?thesis
        using phaseShift_layered_zero[of p "set_data dat (zeros2 (snum dat) (tnum dat))" kx ws] pos tt vl
        by (simp add: len)
    qed
  qed
  obtain vm where vm: "getVelocityProfile dat vel1 = Inr vm" using gv by blast
  show ?thesis
    using nt lv vm ps[OF vm] tpos
    by (simp add: migrationPhaseShift_def Let_def ebind_def zeros2_def[where 'a = real] mk_array2_def
        kx_def[symmetric] ws_def[symmetric] FK[unfolded zeros2_def mk_array2_def] getVelocityProfile_data
        zero_rows zeros2_eq)
qed


section \<open>The shape check of the three engines\<close>

text \<open>
  Claim C2.  When the shape of \<^verbatim>\<open>dat.data\<close> is not \<open>(snum, tnum)\<close>, each of
  \<^verbatim>\<open>migrationKirchhoff\<close>, \<^verbatim>\<open>migrationStolt\<close> and \<^verbatim>\<open>migrationPhaseShift\<close> raises the
  \<^verbatim>\<open>ValueError\<close> of the shape check and leaves the object, hence its samples, as it was.
\<close>

theorem shape_mismatch_raised:
  assumes "shape0 (data dat) \<noteq> snum dat \<or> shape1 (data dat) \<noteq> tnum dat"
  shows "migrationKirchhoff dat vel nearfield = Inl (ShapeMismatch, dat) \<and>
         migrationStolt dat vel = Inl (ShapeMismatch, dat) \<and>
         migrationPhaseShift dat vels vel_fn = Inl (ShapeMismatch, dat)"
  using assms
  by (auto simp: migrationKirchhoff_def migrationStolt_def migrationPhaseShift_def shape_ok_def)

theorem shape_mismatch_raised_witness:
  "shape0 (data rg_bad) = 1 \<and> snum rg_bad = 2 \<and>
   migrationKirchhoff rg_bad 1 True = Inl (ShapeMismatch, rg_bad) \<and>
   migrationStolt rg_bad 1 = Inl (ShapeMismatch, rg_bad) \<and>
   migrationPhaseShift rg_bad (Scalar 1) None = Inl (ShapeMismatch, rg_bad)"
  using shape_mismatch_raised[of rg_bad 1 True "Scalar 1" None]
  by (simp add: rg_bad_def)

section \<open>Only the samples are replaced\<close>

lemma same_but_data_set_data [simp]: "same_but_data dat (set_data dat m)"
  by (simp add: same_but_data_def)

lemma kirchhoff_frame: "migrationKirchhoff dat vel nf = Inr d \<Longrightarrow> \<exists>m. d = set_data dat m"
  by (auto simp: migrationKirchhoff_def Let_def split: if_splits sum.splits)

lemma stolt_frame: "migrationStolt dat vel = Inr d \<Longrightarrow> \<exists>m. d = set_data dat m"
  by (auto simp: migrationStolt_def Let_def ebind_def split: if_splits sum.splits option.splits)

lemma phaseshift_frame: "migrationPhaseShift dat vels vel_fn = Inr d \<Longrightarrow> \<exists>m. d = set_data dat m"
  by (auto simp: migrationPhaseShift_def Let_def split: if_splits sum.splits)

lemma phaseShift_scalar_returns: "\<exists>TK. phaseShift dat (VScalar v) kx ws FK0 = Inr TK"
  by (simp add: phaseShift_def Let_def ebind_def)

lemma phaseshift_scalar_returns:
  assumes "shape_ok dat" "0 < snum dat" "0 < tnum dat"
  shows "\<exists>d. migrationPhaseShift dat (Scalar v) None = Inr d"
proof -
  obtain nt where nt: "next_pow2 (snum dat) = Inr nt" using next_pow2_ge[OF assms(2)] by blast
  obtain TK where "phaseShift dat (VScalar v) (angular (fftfreq (tnum dat) (np_mean (trace_int dat))))
        (angular (fftfreq nt (dt dat))) (map (map Fin) (fft2 (data dat) nt (tnum dat))) = Inr TK"
    using phaseShift_scalar_returns by blast
  then show ?thesis using assms nt
    by (simp add: migrationPhaseShift_def Let_def ebind_def loaded_velocity_def getVelocityProfile_def)
qed

lemma stolt_returns:
  assumes "valid_radargram dat" "2 \<le> snum dat" "2 \<le> tnum dat"
  shows "\<exists>d. migrationStolt dat vel = Inr d"
proof -
  have e: "set_data dat (data dat) = dat" by (simp add: set_data_def)
  have v: "valid_radargram (set_data dat (data dat))" by (simp only: e assms(1))
  note s = valid_shapes[OF v]
  obtain nt nx where n: "next_pow2 (snum dat) = Inr nt" "next_pow2 (tnum dat) = Inr nx"
      "snum dat \<le> nt" "tnum dat \<le> nx"
    using next_pow2_ge[of "snum dat"] next_pow2_ge[of "tnum dat"] s by auto
  then have "2 \<le> nt" "2 \<le> nx" using assms(2,3) by simp_all
  then show ?thesis using migrationStolt_eq[of "data dat" dat nt nx vel] s e n by auto
qed

text \<open>
  Claim C9.  A call of \<^verbatim>\<open>migrationKirchhoff\<close>, \<^verbatim>\<open>migrationStolt\<close> or
  \<^verbatim>\<open>migrationPhaseShift\<close> that returns gives back the object it was given with
  \<^verbatim>\<open>data\<close> replaced: \<open>dt\<close>, \<open>travel_time\<close>, \<open>trace_int\<close>, \<open>dist\<close>, \<open>snum\<close> and
  \<open>tnum\<close> are those of the input.
\<close>

theorem only_samples_replaced:
  "(migrationKirchhoff dat vel nearfield = Inr d1 \<longrightarrow> same_but_data dat d1) \<and>
   (migrationStolt dat vel = Inr d2 \<longrightarrow> same_but_data dat d2) \<and>
   (migrationPhaseShift dat vels vel_fn = Inr d3 \<longrightarrow> same_but_data dat d3)"
  using kirchhoff_frame[of dat vel nearfield d1] stolt_frame[of dat vel d2]
    phaseshift_frame[of dat vels vel_fn d3]
  by auto

theorem only_samples_replaced_witness:
  "\<exists>d1 d2 d3. migrationKirchhoff rg22 1 True = Inr d1 \<and> same_but_data rg22 d1 \<and>
               migrationStolt rg22 1 = Inr d2 \<and> same_but_data rg22 d2 \<and>
               migrationPhaseShift rg22 (Scalar 1) None = Inr d3 \<and> same_but_data rg22 d3"
proof -
  have s: "shape_ok rg22" "2 \<le> snum rg22" "0 < snum rg22" "2 \<le> tnum rg22" "0 < tnum rg22"
    by (simp_all add: rg22_def shape_ok_def)
  obtain d1 where d1: "migrationKirchhoff rg22 1 True = Inr d1"
    using kirchhoff_returns[OF rg22_valid s(2)] by blast
  obtain d2 where d2: "migrationStolt rg22 1 = Inr d2"
    using stolt_returns[OF rg22_valid s(2) s(4)] by blast
  obtain d3 where d3: "migrationPhaseShift rg22 (Scalar 1) None = Inr d3"
    using phaseshift_scalar_returns[OF s(1) s(3) s(5)] by blast
  show ?thesis
    using only_samples_replaced[of rg22 1 True d1 d2 "Scalar 1" None d3] d1 d2 d3 by blast
qed

section \<open>Zero samples: the three engines\<close>








section \<open>Travel times outside the velocity model\<close>














section \<open>Velocity arrays of the wrong shape\<close>

lemma phaseshift_profile_error:
  assumes "loaded_velocity vels vel_fn = Inr v1" "getVelocityProfile dat v1 = Inl e"
  shows "\<exists>e'. migrationPhaseShift dat vels vel_fn = Inl (e', dat)"
    and "shape_ok dat \<Longrightarrow> 0 < snum dat \<Longrightarrow> 0 < tnum dat \<Longrightarrow>
         migrationPhaseShift dat vels vel_fn = Inl (e, dat)"
proof -
  show "shape_ok dat \<Longrightarrow> 0 < snum dat \<Longrightarrow> 0 < tnum dat \<Longrightarrow>
        migrationPhaseShift dat vels vel_fn = Inl (e, dat)"
  proof -
    assume a: "shape_ok dat" "0 < snum dat" "0 < tnum dat"
    obtain nt where nt: "next_pow2 (snum dat) = Inr nt" using next_pow2_ge[OF a(2)] by blast
    show ?thesis using a(1,3) nt assms by (simp add: migrationPhaseShift_def Let_def ebind_def)
  qed
  then show "\<exists>e'. migrationPhaseShift dat vels vel_fn = Inl (e', dat)"
    by (cases "shape_ok dat"; cases "0 < snum dat"; cases "0 < tnum dat")
       (auto simp: migrationPhaseShift_def next_pow2_def ebind_def Let_def)
qed

text \<open>
  Claim C5, amended.  A two-dimensional velocity array with fewer than two rows, or with
  a number of columns other than 2 and 3, makes \<^verbatim>\<open>getVelocityProfile\<close> raise: an
  \<^verbatim>\<open>IndexError\<close> at \<^verbatim>\<open>vels_in[:,0]\<close> or \<^verbatim>\<open>vels_in[:,1]\<close> when there are fewer than two
  columns, and otherwise the \<^verbatim>\<open>UnboundLocalError\<close> of \<^verbatim>\<open>return vmig\<close>.
  \<^verbatim>\<open>migrationPhaseShift\<close> then raises too and leaves the samples as they were.  A
  one-dimensional array fails at the unpacking of its shape.
\<close>

theorem bad_velocity_array_raises:
  assumes "shape0 a < 2 \<or> (shape1 a \<noteq> 2 \<and> shape1 a \<noteq> 3)"
  shows "getVelocityProfile dat (Array2 a) =
           Inl (if shape1 a = 0 then IndexError ''index 0 is out of bounds for axis 1 with size 0''
                else if shape1 a = 1 then IndexError ''index 1 is out of bounds for axis 1 with size 1''
                else UnboundLocalError ''local variable vmig referenced before assignment'') \<and>
         (\<exists>e. migrationPhaseShift dat (Array2 a) None = Inl (e, dat)) \<and>
         getVelocityProfile dat (Array1 xs) =
           Inl (ValueError ''not enough values to unpack (expected 2, got 1)'')"
proof -
  have g: "getVelocityProfile dat (Array2 a) =
           Inl (if shape1 a = 0 then IndexError ''index 0 is out of bounds for axis 1 with size 0''
                else if shape1 a = 1 then IndexError ''index 1 is out of bounds for axis 1 with size 1''
                else UnboundLocalError ''local variable vmig referenced before assignment'')"
    using assms by (auto simp: getVelocityProfile_def Let_def)
  have l: "loaded_velocity (Array2 a) None = Inr (Array2 a)" by (simp add: loaded_velocity_def)
  have o: "getVelocityProfile dat (Array1 xs) =
           Inl (ValueError ''not enough values to unpack (expected 2, got 1)'')"
    by (simp add: getVelocityProfile_def)
  show ?thesis using g phaseshift_profile_error(1)[OF l g] o by simp
qed

theorem bad_velocity_array_raises_witness:
  "getVelocityProfile rg22z (Array2 \<lparr>shape0 = 1, shape1 = 2, rows = [[2, 10]]\<rparr>) =
     Inl (UnboundLocalError ''local variable vmig referenced before assignment'') \<and>
   (\<exists>e. migrationPhaseShift rg22z (Array2 \<lparr>shape0 = 1, shape1 = 2, rows = [[2, 10]]\<rparr>) None =
        Inl (e, rg22z))"
  using bad_velocity_array_raises[of "\<lparr>shape0 = 1, shape1 = 2, rows = [[2, 10]]\<rparr>" rg22z]
  by simp

lemma nonmonotonic_example:
  "getVelocityProfile rg22z (Array2 \<lparr>shape0 = 3, shape1 = 2, rows = [[2, 0], [2, 10], [2, 5]]\<rparr>) =
     Inr (VLayered [2, 2])"
  by code_simp

text \<open>
  A layered table with the depths \<open>0, 10, 5\<close>: no exception, the profile is \<open>[2, 2]\<close> and
  the migration returns.
\<close>

theorem nonmonotonic_depths_accepted:
  "getVelocityProfile rg22z (Array2 \<lparr>shape0 = 3, shape1 = 2, rows = [[2, 0], [2, 10], [2, 5]]\<rparr>) =
     Inr (VLayered [2, 2]) \<and>
   migrationPhaseShift rg22z (Array2 \<lparr>shape0 = 3, shape1 = 2, rows = [[2, 0], [2, 10], [2, 5]]\<rparr>) None =
     Inr (set_data rg22z (mk_array2 2 2 (\<lambda>i j. Fin 0)))"
proof -
  have d: "set_data rg22z (zeros2 (snum rg22z) (tnum rg22z)) = rg22z"
    by (simp add: rg22z_def zeros2_def mk_array2_def tab2_def numeral_2_eq_2 set_data_def)
  have n: "snum rg22z = 2" "tnum rg22z = 2" "length (travel_time rg22z) = 2" by (simp_all add: rg22z_def)
  have z: "(zeros2 2 2 :: real ieee array2) = mk_array2 2 2 (\<lambda>i j. Fin 0)"
    by (simp add: zeros2_def zero_ieee_def)
  have "migrationPhaseShift (set_data rg22z (zeros2 (snum rg22z) (tnum rg22z)))
          (Array2 \<lparr>shape0 = 3, shape1 = 2, rows = [[2, 0], [2, 10], [2, 5]]\<rparr>) None =
        Inr (set_data rg22z (zeros2 (snum rg22z) (tnum rg22z)))"
  proof (rule phaseshift_zero[where v = 0 and p = "[2, 2]"])
    show "0 < snum rg22z" by (simp add: n)
    show "0 < tnum rg22z" by (simp add: n)
    show "length (travel_time rg22z) = snum rg22z" by (simp add: n)
    show "loaded_velocity (Array2 \<lparr>shape0 = 3, shape1 = 2, rows = [[2, 0], [2, 10], [2, 5]]\<rparr>) None =
          Inr (Array2 \<lparr>shape0 = 3, shape1 = 2, rows = [[2, 0], [2, 10], [2, 5]]\<rparr>)"
      by (simp add: loaded_velocity_def)
    show "getVelocityProfile rg22z (Array2 \<lparr>shape0 = 3, shape1 = 2, rows = [[2, 0], [2, 10], [2, 5]]\<rparr>) =
            Inr (VScalar 0) \<or>
          getVelocityProfile rg22z (Array2 \<lparr>shape0 = 3, shape1 = 2, rows = [[2, 0], [2, 10], [2, 5]]\<rparr>) =
            Inr (VLayered [2, 2])"
      using nonmonotonic_example by (rule disjI2)
  qed
  then show ?thesis using nonmonotonic_example by (simp add: d) (simp add: n z)
qed

section \<open>The evanescent mask\<close>

lemma upt2: "[0..<2] = [0, 1]"
  by (simp add: numeral_2_eq_2)

lemma axis11: "angular (fftfreq (Suc 0) 1) = [0]"
  by (simp add: angular_def fftfreq_def)

lemma axis22: "angular (fftfreq 2 1) = [0, - pi]"
  by (simp add: angular_def fftfreq_def upt2)

text \<open>
  Claim C3.  The mask is said to be \<open>coss \<le> (tau / tau_max)^2\<close> with both times in
  seconds.  The source divides \<open>tau\<close>, in seconds, by \<^verbatim>\<open>dat.travel_time[-1]\<close>, in
  microseconds, and then by \<open>10^6\<close>.  On the radargram \<open>rg21\<close> (one trace, two
  frequencies) with any layered profile and any spectrum, take the last output time
  \<open>itau = 1\<close> and the frequency \<open>iw = 1\<close>: \<open>coss = 1\<close> and \<open>tau = tau_max\<close>, so the entry
  is in the mask of the specification; it is not in the mask of the source, which leaves
  \<open>- b\<close> in \<^verbatim>\<open>FK[1]\<close> and adds it to \<^verbatim>\<open>TK[1]\<close>.
\<close>

theorem evanescent_threshold_units:
  "angular (fftfreq (tnum rg21) (np_mean (trace_int rg21))) = [0] \<and>
   angular (fftfreq 2 (dt rg21)) = [0, - pi] \<and>
   spec_evanescent_idx (coss_of v1 (- pi) [0]) (travel_time rg21 ! 1 / 10 ^ 6)
       (last (travel_time rg21) / 10 ^ 6) = [True] \<and>
   evanescent_idx (coss_of v1 (- pi) [0]) (travel_time rg21 ! 1 / 10 ^ 6)
       (last (travel_time rg21)) = [False] \<and>
   ps_step rg21 (VLayered [v0, v1]) [0] [0, - pi] [] 1 1
       \<lparr>st_FK = [[Fin a], [Fin b]], st_TK = [[Fin t0], [Fin t1]], st_FFX_last = []\<rparr> =
     Inr \<lparr>st_FK = [[Fin a], [Fin (- b)]], st_TK = [[Fin t0], [Fin (t1 - b)]], st_FFX_last = []\<rparr>"
  by (simp add: spec_evanescent_idx_def evanescent_idx_def coss_of_def np_le_complex_def
      ps_step_def rg21_def omega_def cshift_of_def zero_where_def Let_def ebind_def
      power2_eq_square axis11 axis22 np_mean_def)


section \<open>The variable FFX_last\<close>

lemma ifft_fin2': "ifft_ieee [Fin a, Fin b] = [Fin ((a + b) / 2), Fin ((a - b) / 2)]"
  by (simp add: ifft_ieee_def divide_by_def upt2)

lemma ifft_fin2: "\<exists>p q. ifft_ieee [Fin a, Fin b] = [Fin p, Fin q]"
  using ifft_fin2' by blast

lemma fft_nan2: "fft_ieee [z, NaN] = [NaN, NaN]"
  by (cases z) (simp_all add: fft_ieee_def upt2)

lemma fft_nan2': "fft_ieee [NaN, z] = [NaN, NaN]"
  by (cases z) (simp_all add: fft_ieee_def upt2)

lemma ifft_nan2: "ifft_ieee [NaN, z] = [NaN, NaN]"
  by (cases z) (simp_all add: ifft_ieee_def divide_by_def upt2)

lemma stencil_of_2: "stencil_of 2 = Inr [[1, 0], [1, 1]]"
  by code_simp

lemma gridded_part_first:
  "\<exists>x. gridded_part dat [2, 1] w L 0 [Fin a, Fin b] fl = Inr ([NaN, NaN], [Fin x, NaN])"
proof -
  obtain p q where i: "ifft_ieee [Fin a, Fin b] = [Fin p, Fin q]" using ifft_fin2 by blast
  show ?thesis
    by (simp add: gridded_part_def Let_def i thin_lens_def ebind_def fft_nan2)
qed

lemma gridded_part_next:
  "gridded_part dat [2, 1] w [[1, 0], [1, 1]] (Suc 0) [NaN, z] [Fin x, NaN] =
     Inr ([NaN, NaN], [NaN, NaN])"
  by (simp add: gridded_part_def Let_def ifft_nan2 thin_lens_def ebind_def fft_nan2
      fourierFiniteDiff_def matvec_def lift_matrix_def upt2 zero_ieee_def)



lemma ps_step_first:
  assumes "iw < length FK" "FK ! iw = [Fin a, Fin b]"
  shows "\<exists>x z TK. ps_step rg22 grid_v [0, - pi] ws L 0 iw
            \<lparr>st_FK = FK, st_TK = TK0, st_FFX_last = fl\<rparr> =
          Inr \<lparr>st_FK = FK[iw := [NaN, z]], st_TK = TK, st_FFX_last = [Fin x, NaN]\<rparr>"
proof -
  define w where "w = omega (dt rg22) (ws ! iw)"
  define cs where "cs = cshift_of w (dt rg22) (coss_of 1 w [0, - pi])"
  have lc: "length cs = 2" by (simp add: cs_def)
  then obtain c0 c1 where cs: "cs = [c0, c1]"
    by (metis (no_types, opaque_lifting) Suc_length_conv length_0_conv numeral_2_eq_2)
  obtain x where g: "gridded_part rg22 [2, 1] w L 0 [Fin (a * c0), Fin (b * c1)] fl =
      Inr ([NaN, NaN], [Fin x, NaN])"
    using gridded_part_first by blast
  have e0: "evanescent_idx (coss_of 1 w [0, - pi]) (travel_time rg22 ! 0 / 10 ^ 6) (last (travel_time rg22)) ! 0 = False"
    by (simp add: evanescent_idx_def coss_of_def np_le_complex_def rg22_def power2_eq_square)
  show ?thesis
    using assms g e0
    by (auto simp add: ps_step_def grid_v_def Let_def w_def[symmetric] cs_def[symmetric] cs ebind_def
        zero_where_def upt2)
qed

lemma ps_step_next:
  assumes "iw < length FK" "FK ! iw = [NaN, z]"
  shows "\<exists>z' TK. ps_step rg22 grid_v [0, - pi] ws [[1, 0], [1, 1]] (Suc 0) iw
            \<lparr>st_FK = FK, st_TK = TK0, st_FFX_last = [Fin x, NaN]\<rparr> =
          Inr \<lparr>st_FK = FK[iw := [NaN, z']], st_TK = TK, st_FFX_last = [NaN, NaN]\<rparr>"
proof -
  define w where "w = omega (dt rg22) (ws ! iw)"
  define cs where "cs = cshift_of w (dt rg22) (coss_of 1 w [0, - pi])"
  have lc: "length cs = 2" by (simp add: cs_def)
  then obtain c0 c1 where cs: "cs = [c0, c1]"
    by (metis (no_types, opaque_lifting) Suc_length_conv length_0_conv numeral_2_eq_2)
  have e0: "evanescent_idx (coss_of 1 w [0, - pi]) (travel_time rg22 ! Suc 0 / 10 ^ 6) (last (travel_time rg22)) ! 0 = False"
    by (simp add: evanescent_idx_def coss_of_def np_le_complex_def rg22_def power2_eq_square)
  have r: "map2 (\<lambda>z c. z * Fin c) [NaN, z] [c0, c1] = [NaN, z * Fin c1]" by simp
  show ?thesis
    using assms e0 gridded_part_next[of rg22 w "z * Fin c1" x]
    by (auto simp add: ps_step_def grid_v_def Let_def w_def[symmetric] cs_def[symmetric] cs ebind_def
        zero_where_def upt2)
qed


text \<open>
  Claim C4.  \<^verbatim>\<open>FFX_last\<close> is said to hold, at depth \<open>itau\<close> and frequency \<open>iw\<close>, the
  \<^verbatim>\<open>FFX\<close> of depth \<open>itau - 1\<close> and the same frequency.  The source assigns
  \<^verbatim>\<open>FFX_last = FFX\<close> inside the loop over the frequencies.  With two samples, two traces
  and any finite spectrum: after depth 0 the variable holds the \<^verbatim>\<open>FFX\<close> of
  \<open>(itau, iw) = (0, 1)\<close>, which is \<open>[x, NaN]\<close>; the iteration \<open>(1, 0)\<close> overwrites it with
  \<open>[NaN, NaN]\<close>; and the whole loop is the iteration \<open>(1, 1)\<close> run from that state, so
  \<^verbatim>\<open>fourierFiniteDiff\<close> receives there the \<^verbatim>\<open>FFX\<close> of \<open>(1, 0)\<close>.
\<close>

theorem ffx_last_overwritten_per_frequency:
  "angular (fftfreq (tnum rg22) (np_mean (trace_int rg22))) = [0, - pi] \<and>
   angular (fftfreq 2 (dt rg22)) = [0, - pi] \<and>
   stencil_of (tnum rg22) = Inr [[1, 0], [1, 1]] \<and>
   (\<exists>s2 s3 x.
     efold (ps_step rg22 grid_v [0, - pi] [0, - pi] [[1, 0], [1, 1]] 0) [0, 1]
       \<lparr>st_FK = [[Fin a, Fin b], [Fin c, Fin d]], st_TK = TK0, st_FFX_last = []\<rparr> = Inr s2 \<and>
     st_FFX_last s2 = [Fin x, NaN] \<and>
     ps_step rg22 grid_v [0, - pi] [0, - pi] [[1, 0], [1, 1]] 1 0 s2 = Inr s3 \<and>
     st_FFX_last s3 = [NaN, NaN] \<and>
     ps_loops rg22 grid_v [0, - pi] [0, - pi] [[1, 0], [1, 1]]
       \<lparr>st_FK = [[Fin a, Fin b], [Fin c, Fin d]], st_TK = TK0, st_FFX_last = []\<rparr> =
     ps_step rg22 grid_v [0, - pi] [0, - pi] [[1, 0], [1, 1]] 1 1 s3)"
proof -
  let ?step = "ps_step rg22 grid_v [0, - pi] [0, - pi] [[1, 0], [1, 1]]"
  let ?s0 = "\<lparr>st_FK = [[Fin a, Fin b], [Fin c, Fin d]], st_TK = TK0, st_FFX_last = []\<rparr>"
  obtain x1 z1 TK1 where s1: "?step 0 0 ?s0 =
      Inr \<lparr>st_FK = [[NaN, z1], [Fin c, Fin d]], st_TK = TK1, st_FFX_last = [Fin x1, NaN]\<rparr>"
    using ps_step_first[of 0 "[[Fin a, Fin b], [Fin c, Fin d]]" a b "[0, - pi]" "[[1, 0], [1, 1]]" TK0 "[]"]
    by auto
  obtain x2 z2 TK2 where s2: "?step 0 1 \<lparr>st_FK = [[NaN, z1], [Fin c, Fin d]], st_TK = TK1, st_FFX_last = [Fin x1, NaN]\<rparr> =
      Inr \<lparr>st_FK = [[NaN, z1], [NaN, z2]], st_TK = TK2, st_FFX_last = [Fin x2, NaN]\<rparr>"
    using ps_step_first[of 1 "[[NaN, z1], [Fin c, Fin d]]" c d "[0, - pi]" "[[1, 0], [1, 1]]" TK1 "[Fin x1, NaN]"]
    by auto
  obtain z3 TK3 where s3: "?step 1 0 \<lparr>st_FK = [[NaN, z1], [NaN, z2]], st_TK = TK2, st_FFX_last = [Fin x2, NaN]\<rparr> =
      Inr \<lparr>st_FK = [[NaN, z3], [NaN, z2]], st_TK = TK3, st_FFX_last = [NaN, NaN]\<rparr>"
    using ps_step_next[of 0 "[[NaN, z1], [NaN, z2]]" z1 "[0, - pi]" TK2 x2]
    by auto
  have n: "snum rg22 = 2" "length (travel_time rg22) = 2" by (simp_all add: rg22_def)
  have loops: "ps_loops rg22 grid_v [0, - pi] [0, - pi] [[1, 0], [1, 1]] ?s0 =
     ?step 1 1 \<lparr>st_FK = [[NaN, z3], [NaN, z2]], st_TK = TK3, st_FFX_last = [NaN, NaN]\<rparr>"
  proof -
    have l: "[0..<length [0, - pi :: real]] = [0, 1]" by (simp add: upt2)
    have i: "(0::nat) < 2" "(1::nat) < 2" by simp_all
    show ?thesis
      unfolding ps_loops_def n upt2 l efold.simps
      by (simp only: i if_True s1 s2 s3 ebind_def sum.case)
         (cases "?step 1 1 \<lparr>st_FK = [[NaN, z3], [NaN, z2]], st_TK = TK3, st_FFX_last = [NaN, NaN]\<rparr>";
          simp only: sum.case)
  qed
  have ax: "angular (fftfreq (tnum rg22) (np_mean (trace_int rg22))) = [0, - pi]"
      "angular (fftfreq 2 (dt rg22)) = [0, - pi]" "stencil_of (tnum rg22) = Inr [[1, 0], [1, 1]]"
    by (simp_all add: rg22_def np_mean_def axis22 stencil_of_2)
  show ?thesis
  proof (intro exI conjI)
    show "angular (fftfreq (tnum rg22) (np_mean (trace_int rg22))) = [0, - pi]" by (rule ax)
    show "angular (fftfreq 2 (dt rg22)) = [0, - pi]" by (rule ax)
    show "stencil_of (tnum rg22) = Inr [[1, 0], [1, 1]]" by (rule ax)
    show "efold (?step 0) [0, 1] ?s0 =
        Inr \<lparr>st_FK = [[NaN, z1], [NaN, z2]], st_TK = TK2, st_FFX_last = [Fin x2, NaN]\<rparr>"
      by (simp only: efold.simps s1 s2 ebind_def sum.case)
    show "st_FFX_last \<lparr>st_FK = [[NaN, z1], [NaN, z2]], st_TK = TK2, st_FFX_last = [Fin x2, NaN]\<rparr> =
        [Fin x2, NaN]" by simp
    show "?step 1 0 \<lparr>st_FK = [[NaN, z1], [NaN, z2]], st_TK = TK2, st_FFX_last = [Fin x2, NaN]\<rparr> =
        Inr \<lparr>st_FK = [[NaN, z3], [NaN, z2]], st_TK = TK3, st_FFX_last = [NaN, NaN]\<rparr>"
      by (rule s3)
    show "st_FFX_last \<lparr>st_FK = [[NaN, z3], [NaN, z2]], st_TK = TK3, st_FFX_last = [NaN, NaN]\<rparr> =
        [NaN, NaN]" by simp
    show "ps_loops rg22 grid_v [0, - pi] [0, - pi] [[1, 0], [1, 1]] ?s0 =
        ?step 1 1 \<lparr>st_FK = [[NaN, z3], [NaN, z2]], st_TK = TK3, st_FFX_last = [NaN, NaN]\<rparr>"
      by (rule loops)
  qed
qed


section \<open>The gridded branch produces NaN\<close>

text \<open>
  With a gridded velocity field the thin-lens phase divides by
  \<^verbatim>\<open>vfg = vmig[itau] - np.min(vmig[itau])\<close>, which is zero at the slowest trace.  On two
  samples and two traces, whatever the finite spectrum (the zero spectrum included), the
  first column of \<^verbatim>\<open>TK\<close> is NaN, and so is every migrated sample.
\<close>

lemma plus_nan [simp]: "(t :: 'a::monoid_add ieee) + NaN = NaN" "NaN + t = NaN"
  by (cases t; simp)+

lemma times_nan [simp]: "(t :: 'a::times ieee) * NaN = NaN" "NaN * t = NaN"
  by (cases t; simp)+

lemma minus_nan [simp]: "(t :: 'a::minus ieee) - NaN = NaN" "NaN - t = NaN"
  by (cases t; simp)+

lemma gridded_part_next_any:
  "gridded_part dat [2, 1] w [[1, 0], [1, 1]] (Suc 0) [NaN, z] [f0, f1] =
     Inr ([NaN, NaN], [NaN, NaN])"
  by (simp add: gridded_part_def Let_def ifft_nan2 thin_lens_def ebind_def fft_nan2
      fourierFiniteDiff_def matvec_def lift_matrix_def upt2 zero_ieee_def)

lemma ps_step_first_tk:
  assumes "iw < length FK" "FK ! iw = [Fin a, Fin b]"
  shows "\<exists>x z. ps_step rg22 grid_v [0, - pi] ws L 0 iw
            \<lparr>st_FK = FK, st_TK = [[t00, t01], r1], st_FFX_last = fl\<rparr> =
          Inr \<lparr>st_FK = FK[iw := [NaN, z]], st_TK = [[NaN, t01 + z], r1],
               st_FFX_last = [Fin x, NaN]\<rparr>"
proof -
  define w where "w = omega (dt rg22) (ws ! iw)"
  define cs where "cs = cshift_of w (dt rg22) (coss_of 1 w [0, - pi])"
  have lc: "length cs = 2" by (simp add: cs_def)
  then obtain c0 c1 where cs: "cs = [c0, c1]"
    by (metis (no_types, opaque_lifting) Suc_length_conv length_0_conv numeral_2_eq_2)
  obtain x where g: "gridded_part rg22 [2, 1] w L 0 [Fin (a * c0), Fin (b * c1)] fl =
      Inr ([NaN, NaN], [Fin x, NaN])"
    using gridded_part_first by blast
  have e0: "evanescent_idx (coss_of 1 w [0, - pi]) (travel_time rg22 ! 0 / 10 ^ 6) (last (travel_time rg22)) ! 0 = False"
    by (simp add: evanescent_idx_def coss_of_def np_le_complex_def rg22_def power2_eq_square)
  show ?thesis
    using assms g e0
    by (auto simp add: ps_step_def grid_v_def Let_def w_def[symmetric] cs_def[symmetric] cs ebind_def
        zero_where_def upt2)
qed

lemma ps_step_next_tk:
  assumes "iw < length FK" "FK ! iw = [NaN, z]"
  shows "\<exists>z'. ps_step rg22 grid_v [0, - pi] ws [[1, 0], [1, 1]] (Suc 0) iw
            \<lparr>st_FK = FK, st_TK = [r0, [t10, t11]], st_FFX_last = [f0, f1]\<rparr> =
          Inr \<lparr>st_FK = FK[iw := [NaN, z']], st_TK = [r0, [NaN, t11 + z']],
               st_FFX_last = [NaN, NaN]\<rparr>"
proof -
  define w where "w = omega (dt rg22) (ws ! iw)"
  define cs where "cs = cshift_of w (dt rg22) (coss_of 1 w [0, - pi])"
  have lc: "length cs = 2" by (simp add: cs_def)
  then obtain c0 c1 where cs: "cs = [c0, c1]"
    by (metis (no_types, opaque_lifting) Suc_length_conv length_0_conv numeral_2_eq_2)
  have e0: "evanescent_idx (coss_of 1 w [0, - pi]) (travel_time rg22 ! Suc 0 / 10 ^ 6) (last (travel_time rg22)) ! 0 = False"
    by (simp add: evanescent_idx_def coss_of_def np_le_complex_def rg22_def power2_eq_square)
  show ?thesis
    using assms e0 gridded_part_next_any[of rg22 w "z * Fin c1" f0 f1]
    by (auto simp add: ps_step_def grid_v_def Let_def w_def[symmetric] cs_def[symmetric] cs ebind_def
        zero_where_def upt2)
qed

lemma gridded_output_nan:
  "\<exists>u v. phaseShift rg22 grid_v [0, - pi] [0, - pi] [[Fin a, Fin b], [Fin c, Fin d]] =
           Inr [[NaN, u], [NaN, v]]"
proof -
  let ?step = "ps_step rg22 grid_v [0, - pi] [0, - pi] [[1, 0], [1, 1]]"
  obtain x1 z1 where s1: "?step 0 0 \<lparr>st_FK = [[Fin a, Fin b], [Fin c, Fin d]],
        st_TK = [[Fin 0, Fin 0], [Fin 0, Fin 0]], st_FFX_last = []\<rparr> =
      Inr \<lparr>st_FK = [[NaN, z1], [Fin c, Fin d]], st_TK = [[NaN, Fin 0 + z1], [Fin 0, Fin 0]],
           st_FFX_last = [Fin x1, NaN]\<rparr>"
    using ps_step_first_tk[of 0 "[[Fin a, Fin b], [Fin c, Fin d]]" a b "[0, - pi]" "[[1, 0], [1, 1]]"
        "Fin 0" "Fin 0" "[Fin 0, Fin 0]" "[]"]
    by auto
  obtain x2 z2 where s2: "?step 0 1 \<lparr>st_FK = [[NaN, z1], [Fin c, Fin d]],
        st_TK = [[NaN, Fin 0 + z1], [Fin 0, Fin 0]], st_FFX_last = [Fin x1, NaN]\<rparr> =
      Inr \<lparr>st_FK = [[NaN, z1], [NaN, z2]], st_TK = [[NaN, Fin 0 + z1 + z2], [Fin 0, Fin 0]],
           st_FFX_last = [Fin x2, NaN]\<rparr>"
    using ps_step_first_tk[of 1 "[[NaN, z1], [Fin c, Fin d]]" c d "[0, - pi]" "[[1, 0], [1, 1]]"
        NaN "Fin 0 + z1" "[Fin 0, Fin 0]" "[Fin x1, NaN]"]
    by auto
  obtain z3 where s3: "?step 1 0 \<lparr>st_FK = [[NaN, z1], [NaN, z2]],
        st_TK = [[NaN, Fin 0 + z1 + z2], [Fin 0, Fin 0]], st_FFX_last = [Fin x2, NaN]\<rparr> =
      Inr \<lparr>st_FK = [[NaN, z3], [NaN, z2]], st_TK = [[NaN, Fin 0 + z1 + z2], [NaN, Fin 0 + z3]],
           st_FFX_last = [NaN, NaN]\<rparr>"
    using ps_step_next_tk[of 0 "[[NaN, z1], [NaN, z2]]" z1 "[0, - pi]"
        "[NaN, Fin 0 + z1 + z2]" "Fin 0" "Fin 0" "Fin x2" NaN]
    by auto
  obtain z4 where s4: "?step 1 1 \<lparr>st_FK = [[NaN, z3], [NaN, z2]],
        st_TK = [[NaN, Fin 0 + z1 + z2], [NaN, Fin 0 + z3]], st_FFX_last = [NaN, NaN]\<rparr> =
      Inr \<lparr>st_FK = [[NaN, z3], [NaN, z4]], st_TK = [[NaN, Fin 0 + z1 + z2], [NaN, Fin 0 + z3 + z4]],
           st_FFX_last = [NaN, NaN]\<rparr>"
    using ps_step_next_tk[of 1 "[[NaN, z3], [NaN, z2]]" z2 "[0, - pi]"
        "[NaN, Fin 0 + z1 + z2]" NaN "Fin 0 + z3" NaN NaN]
    by auto
  have n: "snum rg22 = 2" "tnum rg22 = 2" "length (travel_time rg22) = 2" by (simp_all add: rg22_def)
  have l: "[0..<length [0, - pi :: real]] = [0, 1]" by (simp add: upt2)
  have i: "(0::nat) < 2" "(1::nat) < 2" by simp_all
  have loops: "ps_loops rg22 grid_v [0, - pi] [0, - pi] [[1, 0], [1, 1]]
      \<lparr>st_FK = [[Fin a, Fin b], [Fin c, Fin d]],
        st_TK = [[Fin 0, Fin 0], [Fin 0, Fin 0]], st_FFX_last = []\<rparr> =
      Inr \<lparr>st_FK = [[NaN, z3], [NaN, z4]], st_TK = [[NaN, Fin 0 + z1 + z2], [NaN, Fin 0 + z3 + z4]],
           st_FFX_last = [NaN, NaN]\<rparr>"
    unfolding ps_loops_def n upt2 l efold.simps
    by (simp only: i if_True s1 s2 s3 s4 ebind_def sum.case)
  have t: "replicate 2 (replicate (length [0, - pi :: real]) (Fin (0::complex))) =
      [[Fin 0, Fin 0], [Fin 0, Fin 0]]" by (simp add: numeral_2_eq_2)
  show ?thesis
    unfolding phaseShift_def Let_def n t
    by (simp add: grid_v_def vlen_def stencil_of_2 ebind_def loops[unfolded grid_v_def] divide_by_def)
qed

lemma nan_rows: "map (\<lambda>row. map real_part (ifft_ieee row)) [[NaN, u], [NaN, v]] = [[NaN, NaN], [NaN, NaN]]"
  by (simp add: ifft_nan2 real_part_def)


section \<open>The constant shift on doubles\<close>

lemma floor_log2: "2 ^ n \<le> x \<Longrightarrow> x < 2 ^ Suc n \<Longrightarrow> \<lfloor>log 2 x\<rfloor> = int n"
proof -
  assume a: "2 ^ n \<le> x" "x < 2 ^ Suc n"
  have pos: "0 < x" using a(1) by (smt (verit) zero_less_power)
  have "real n \<le> log 2 x" using a(1) pos by (simp add: le_log_iff powr_realpow)
  moreover have "log 2 x < real n + 1"
    using a(2) pos by (simp add: log_less_iff powr_add powr_realpow)
  ultimately show ?thesis by (simp add: floor_eq_iff)
qed

lemma rd1: "round_double (2 ^ 53) = 2 ^ 53"
proof -
  have "\<lfloor>log 2 \<bar>2 ^ 53 :: real\<bar>\<rfloor> = 53" using floor_log2[of 53 "2 ^ 53"] by simp
  then show ?thesis
    by (simp add: round_double_def round_half_even_def Let_def powr_realpow[symmetric])
qed

lemma rd2: "round_double (1 + 2 ^ 53) = 2 ^ 53"
proof -
  have "\<lfloor>log 2 \<bar>1 + 2 ^ 53 :: real\<bar>\<rfloor> = 53" using floor_log2[of 53 "1 + 2 ^ 53"] by simp
  then show ?thesis
    by (simp add: round_double_def round_half_even_def Let_def)
qed

lemma rg01_valid: "valid_radargram rg01"
  by (simp add: valid_radargram_def rg01_def wf_array2_def shape_ok_def np_mean_def)

lemma shifted_rg01:
  "add_const_double (2 ^ 53) (data rg01) =
     \<lparr>shape0 = 2, shape1 = 1, rows = [[2 ^ 53], [2 ^ 53]]\<rparr>"
  using rd1 rd2
  by (simp add: add_const_double_def rg01_def mk_array2_def tab2_def numeral_2_eq_2)

lemma const_is_shift:
  "\<lparr>shape0 = 2, shape1 = 1, rows = [[c], [c]]\<rparr> = add_const c (zeros2 2 1)"
  by (simp add: add_const_def zeros2_def mk_array2_def tab2_def numeral_2_eq_2)

lemma kirchhoff_const_rg01:
  "migrationKirchhoff (set_data rg01 \<lparr>shape0 = 2, shape1 = 1, rows = [[c], [c]]\<rparr>) 1 False =
     Inr (set_data rg01 (zeros2 2 1))"
proof -
  define zd where "zd = set_data rg01 (zeros2 2 1 :: real array2)"
  have n: "snum rg01 = 2" "tnum rg01 = 1" by (simp_all add: rg01_def)
  have v: "valid_radargram zd"
    by (simp add: zd_def valid_radargram_def rg01_def wf_array2_def shape_ok_def np_mean_def
        zeros2_def mk_array2_def tab2_def numeral_2_eq_2 set_data_def)
  have z: "migrationKirchhoff zd 1 False = Inr zd"
    unfolding zd_def using kirchhoff_zero[of rg01 1 False] by (simp add: n rg01_def)
  have "map_sum fst id (migrationKirchhoff (set_data zd (add_const c (data zd))) 1 False) =
        map_sum fst id (migrationKirchhoff zd 1 False)"
    by (rule kirchhoff_shift_main[OF v])
  then have "map_sum fst id (migrationKirchhoff (set_data rg01 (add_const c (zeros2 2 1))) 1 False) = Inr zd"
    by (simp add: z) (simp add: zd_def)
  then have "migrationKirchhoff (set_data rg01 (add_const c (zeros2 2 1))) 1 False = Inr zd"
    by (cases "migrationKirchhoff (set_data rg01 (add_const c (zeros2 2 1))) 1 False") auto
  then show ?thesis unfolding const_is_shift zd_def .
qed

lemma sqrt_sq: "0 \<le> a \<Longrightarrow> sqrt (a ^ 2) = a"
  by simp

lemma kirchhoff_rg01:
  "migrationKirchhoff rg01 1 False =
     Inr (set_data rg01 \<lparr>shape0 = 2, shape1 = 1, rows = [[10 ^ 6 / (2 * pi)], [10 ^ 6 / (2 * pi)]]\<rparr>)"
proof -
  have s1: "sqrt ((1 / 2000000) ^ 2) = 1 / 2000000" by (rule sqrt_sq) simp
  have s2: "sqrt ((1 / 1000000) ^ 2) = 1 / 1000000" by (rule sqrt_sq) simp
  have s1': "sqrt (1 / 4000000000000) = 1 / 2000000" using s1 by (simp add: power2_eq_square)
  have s2': "sqrt (1 / 1000000000000) = 1 / 1000000" using s2 by (simp add: power2_eq_square)
  show ?thesis
    by (simp add: migrationKirchhoff_def rg01_def shape_ok_def gradient_axis0_def gradient_errors_def
        grad_at_def mk_array2_def tab2_def numeral_2_eq_2 kirchhoff_sample_def Let_def
        hyp_index_def np_argmin_def along_hyperbola_def nansum_def set_data_def
        power2_eq_square s1' s2' real_sqrt_divide)
qed

text \<open>
  With \<open>data = [[0], [1]]\<close> and \<open>c = 2^53\<close> the sum \<open>1 + c\<close> is not a double and is
  rounded to \<open>c\<close>: the shifted samples are constant, their time derivative is zero, and
  \<^verbatim>\<open>migrationKirchhoff\<close> returns zeros, whereas it returns \<open>10^6 / (2 pi)\<close> twice on the
  samples themselves.
\<close>

theorem kirchhoff_shift_rounded:
  "valid_radargram rg01 \<and>
   add_const_double (2 ^ 53) (data rg01) = \<lparr>shape0 = 2, shape1 = 1, rows = [[2 ^ 53], [2 ^ 53]]\<rparr> \<and>
   migrationKirchhoff (set_data rg01 (add_const_double (2 ^ 53) (data rg01))) 1 False =
     Inr (set_data rg01 \<lparr>shape0 = 2, shape1 = 1, rows = [[0], [0]]\<rparr>) \<and>
   migrationKirchhoff rg01 1 False =
     Inr (set_data rg01 \<lparr>shape0 = 2, shape1 = 1, rows = [[10 ^ 6 / (2 * pi)], [10 ^ 6 / (2 * pi)]]\<rparr>)"
proof -
  have z: "(zeros2 2 1 :: real array2) = \<lparr>shape0 = 2, shape1 = 1, rows = [[0], [0]]\<rparr>"
    by (simp add: zeros2_def mk_array2_def tab2_def numeral_2_eq_2)
  show ?thesis
    using rg01_valid kirchhoff_rg01 kirchhoff_const_rg01[of "2 ^ 53"]
    unfolding shifted_rg01 z by simp
qed

end
